theory Spec2Isabelle
  imports Complex_Main
begin

section \<open>Go strings and the library functions the sources call\<close>

text \<open>
  A Go \<open>string\<close> is a sequence of bytes; it is modelled as \<^typ>\<open>string\<close>, a list of
  8-bit characters. Indices and lengths are byte offsets, as in Go. A \<open>rune\<close> is a
  Unicode code point.
\<close>

type_synonym rune = int

definition RuneError :: rune where
  "RuneError = 0xFFFD"

text \<open>
  \<open>utf8.DecodeRuneInString\<close>: the first rune of a string and its width in bytes. An
  ill-formed sequence decodes as \<open>RuneError\<close> of width 1.
\<close>

definition DecodeRuneInString :: "string \<Rightarrow> rune \<times> nat" where
  "DecodeRuneInString s =
     (case (map of_char s :: int list) of
        [] \<Rightarrow> (RuneError, 0)
      | s0 # rest \<Rightarrow>
          if s0 < 0x80 then (s0, 1)
          else if s0 < 0xC2 \<or> 0xF4 < s0 then (RuneError, 1)
          else
            let sz = (if s0 < 0xE0 then 2 else if s0 < 0xF0 then 3 else (4::nat));
                lo = (if s0 = 0xE0 then 0xA0 else if s0 = 0xF0 then 0x90 else (0x80::int));
                hi = (if s0 = 0xED then 0x9F else if s0 = 0xF4 then 0x8F else (0xBF::int))
            in
              if length s < sz then (RuneError, 1)
              else
                let s1 = rest ! 0 in
                if s1 < lo \<or> hi < s1 then (RuneError, 1)
                else if sz \<le> 2 then ((s0 mod 0x20) * 0x40 + s1 mod 0x40, 2)
                else
                  let s2 = rest ! 1 in
                  if s2 < 0x80 \<or> 0xBF < s2 then (RuneError, 1)
                  else if sz \<le> 3 then
                    ((s0 mod 0x10) * 0x1000 + (s1 mod 0x40) * 0x40 + s2 mod 0x40, 3)
                  else
                    let s3 = rest ! 2 in
                    if s3 < 0x80 \<or> 0xBF < s3 then (RuneError, 1)
                    else
                      ((s0 mod 8) * 0x40000 + (s1 mod 0x40) * 0x1000
                         + (s2 mod 0x40) * 0x40 + s3 mod 0x40, 4))"

lemma DecodeRuneInString_width: "s \<noteq> [] \<Longrightarrow> 0 < snd (DecodeRuneInString s)"
  by (cases s) (simp_all add: DecodeRuneInString_def Let_def)

text \<open>
  \<open>for i, r := range s\<close> decodes one rune after the other. \<open>rune_chunks\<close> keeps, with
  each rune, the bytes it was decoded from.
\<close>

function rune_chunks :: "string \<Rightarrow> (rune \<times> string) list" where
  "rune_chunks s =
     (if s = [] then []
      else (fst (DecodeRuneInString s), take (snd (DecodeRuneInString s)) s)
             # rune_chunks (drop (snd (DecodeRuneInString s)) s))"
  by pat_completeness auto
termination
  by (relation "measure length") (auto simp: DecodeRuneInString_width)

declare rune_chunks.simps [simp del]

definition runes :: "string \<Rightarrow> rune list" where
  "runes s = map fst (rune_chunks s)"

definition RuneCountInString :: "string \<Rightarrow> nat" where
  "RuneCountInString s = length (runes s)"

text \<open>
  \<open>unicode.IsSpace\<close>: in Latin-1 the characters \<open>\t \n \v \f \r\<close>, space, U+0085 and
  U+00A0; beyond it the code points with the property White\_Space.
\<close>

definition IsSpace :: "rune \<Rightarrow> bool" where
  "IsSpace r =
     ((0x09 \<le> r \<and> r \<le> 0x0D) \<or> r = 0x20 \<or> r = 0x85 \<or> r = 0xA0 \<or> r = 0x1680
      \<or> (0x2000 \<le> r \<and> r \<le> 0x200A) \<or> r = 0x2028 \<or> r = 0x2029 \<or> r = 0x202F
      \<or> r = 0x205F \<or> r = 0x3000)"

text \<open>
  \<open>unicode.Is(unicode.Han, r)\<close>: the range table of the script Han in Go's \<open>unicode\<close>
  package (Unicode 15).
\<close>

definition Han :: "(rune \<times> rune) list" where
  "Han =
     [(0x2E80, 0x2E99), (0x2E9B, 0x2EF3), (0x2F00, 0x2FD5), (0x3005, 0x3005),
      (0x3007, 0x3007), (0x3021, 0x3029), (0x3038, 0x303B), (0x3400, 0x4DBF),
      (0x4E00, 0x9FFF), (0xF900, 0xFA6D), (0xFA70, 0xFAD9), (0x16FE2, 0x16FE3),
      (0x16FF0, 0x16FF1), (0x20000, 0x2A6DF), (0x2A700, 0x2B739), (0x2B740, 0x2B81D),
      (0x2B820, 0x2CEA1), (0x2CEB0, 0x2EBE0), (0x2F800, 0x2FA1D), (0x30000, 0x3134A),
      (0x31350, 0x323AF)]"

definition Is :: "(rune \<times> rune) list \<Rightarrow> rune \<Rightarrow> bool" where
  "Is rangeTab r = list_ex (\<lambda>(lo, hi). lo \<le> r \<and> r \<le> hi) rangeTab"

text \<open>
  \<open>strings.Index\<close>: the byte offset of the first instance of \<open>substr\<close> in \<open>s\<close>; the
  library's \<open>-1\<close> is \<open>None\<close> here.
\<close>

fun Index :: "string \<Rightarrow> string \<Rightarrow> nat option" where
  "Index [] substr = (if substr = [] then Some 0 else None)"
| "Index (c # cs) substr =
     (if take (length substr) (c # cs) = substr then Some 0
      else map_option Suc (Index cs substr))"

lemma Index_Some_bound:
  "Index s substr = Some i \<Longrightarrow> i + length substr \<le> length s"
proof (induction s arbitrary: i)
  case Nil
  then show ?case by (simp split: if_splits)
next
  case (Cons c cs)
  show ?case
  proof (cases "take (length substr) (c # cs) = substr")
    case True
    have "length (take (length substr) (c # cs)) \<le> length (c # cs)"
      by simp
    then have "length substr \<le> length (c # cs)"
      by (simp only: True)
    with True Cons.prems show ?thesis by simp
  next
    case False
    with Cons.prems obtain j where "Index cs substr = Some j" "i = Suc j"
      by auto
    with Cons.IH show ?thesis by simp
  qed
qed

definition Contains :: "string \<Rightarrow> string \<Rightarrow> bool" where
  "Contains s substr = (case Index s substr of None \<Rightarrow> False | Some i \<Rightarrow> True)"

text \<open>\<open>strings.TrimSpace\<close>: \<open>s\<close> without its leading and trailing white space runes.\<close>

definition TrimSpace :: "string \<Rightarrow> string" where
  "TrimSpace s =
     concat (map snd
       (rev (dropWhile (\<lambda>c. IsSpace (fst c))
         (rev (dropWhile (\<lambda>c. IsSpace (fst c)) (rune_chunks s))))))"

text \<open>
  \<open>strings.Split(s, sep)\<close>: the pieces of \<open>s\<close> between the instances of \<open>sep\<close>. With an
  empty separator the library splits after each UTF-8 sequence.
\<close>

function Split :: "string \<Rightarrow> string \<Rightarrow> string list" where
  "Split s sep =
     (if sep = [] then map snd (rune_chunks s)
      else case Index s sep of
             None \<Rightarrow> [s]
           | Some i \<Rightarrow> take i s # Split (drop (i + length sep) s) sep)"
  by pat_completeness auto
termination
proof (relation "measure (\<lambda>(s, sep). length s)")
  fix s sep :: string and i
  assume "sep \<noteq> []" "Index s sep = Some i"
  then have "i + length sep \<le> length s" "0 < length sep"
    by (auto dest: Index_Some_bound)
  then have "length s - (i + length sep) < length s"
    by arith
  then show "((drop (i + length sep) s, sep), (s, sep)) \<in> measure (\<lambda>(s, sep). length s)"
    by simp
qed simp

declare Split.simps [simp del]

definition Join :: "string list \<Rightarrow> string \<Rightarrow> string" where
  "Join elems sep =
     (case elems of [] \<Rightarrow> [] | e # es \<Rightarrow> e @ concat (map (\<lambda>x. sep @ x) es))"

text \<open>
  \<open>strings.Count(s, "\t")\<close> for a separator of one byte: the number of its occurrences.
\<close>

definition Count :: "string \<Rightarrow> char \<Rightarrow> nat" where
  "Count s c = length (filter (\<lambda>x. x = c) s)"

text \<open>
  \<open>strings.Replace(s, old, new, 1)\<close>: the first instance of \<open>old\<close> replaced by \<open>new\<close>.
  An empty \<open>old\<close> matches at the beginning of the string.
\<close>

definition Replace1 :: "string \<Rightarrow> string \<Rightarrow> string \<Rightarrow> string" where
  "Replace1 s old new =
     (if old = new then s
      else case Index s old of
             None \<Rightarrow> s
           | Some j \<Rightarrow> take j s @ new @ drop (j + length old) s)"

section \<open>Text utilities (package \<open>textutil\<close>)\<close>

text \<open>
  \<^verbatim>\<open>
  func ContainsChinese(s string) bool {
      for _, r := range s {
          if unicode.Is(unicode.Han, r) { return true }
      }
      return false
  }
  \<close>
\<close>

definition ContainsChinese :: "string \<Rightarrow> bool" where
  "ContainsChinese s = list_ex (Is Han) (runes s)"

text \<open>
  \<^verbatim>\<open>
  func Hash(s string) string {
      h := sha256.Sum256([]byte(s))
      return hex.EncodeToString(h[:])
  }
  \<close>
  The digest function \<open>sha256.Sum256\<close> of the standard library is a parameter of the
  model; \<open>hex.EncodeToString\<close> writes two lower-case hexadecimal digits per byte.
\<close>

definition hextable :: string where
  "hextable = ''0123456789abcdef''"

definition EncodeToString :: "string \<Rightarrow> string" where
  "EncodeToString src =
     concat (map (\<lambda>b. [hextable ! (of_char b div 16), hextable ! (of_char b mod 16)]) src)"

definition Hash :: "(string \<Rightarrow> string) \<Rightarrow> string \<Rightarrow> string" where
  "Hash Sum256 s = EncodeToString (Sum256 s)"

section \<open>Regular expressions (Go's package \<open>regexp\<close>)\<close>

text \<open>
  The patterns that the sources compile use literals, character classes, \<open>.\<close>,
  concatenation, alternation, the greedy operators \<open>*\<close>, \<open>+\<close>, \<open>?\<close> and capturing
  groups. \<open>regexp\<close> returns the leftmost match, and among the matches that begin there
  the one that a backtracking search finds first. \<open>backtrack re s caps\<close> lists, in the
  order of that search, the ways in which \<open>re\<close> matches a prefix of \<open>s\<close>: for each the
  rest of \<open>s\<close> and the groups captured so far (the latest capture of a group first).

  The model works on bytes. Every literal and every class of the patterns is ASCII, so
  a match begins and ends at the same offsets as over the runes of the text.
\<close>

datatype regex =
    Empty
  | Lit char
  | OneOf "(char \<times> char) list"
  | NoneOf "(char \<times> char) list"
  | AnyChar
  | Cat regex regex
  | Alt regex regex
  | Star regex
  | Group nat regex

definition Plus :: "regex \<Rightarrow> regex" where
  "Plus re = Cat re (Star re)"

definition Opt :: "regex \<Rightarrow> regex" where
  "Opt re = Alt re Empty"

definition Seq :: "regex list \<Rightarrow> regex" where
  "Seq res = foldr Cat res Empty"

definition in_ranges :: "(char \<times> char) list \<Rightarrow> char \<Rightarrow> bool" where
  "in_ranges rs c =
     list_ex (\<lambda>(lo, hi). (of_char lo :: int) \<le> of_char c \<and> (of_char c :: int) \<le> of_char hi) rs"

type_synonym captures = "(nat \<times> string) list"

fun backtrack :: "regex \<Rightarrow> string \<Rightarrow> captures \<Rightarrow> (string \<times> captures) list" where
  "backtrack Empty s caps = [(s, caps)]"
| "backtrack (Lit c) s caps =
     (case s of [] \<Rightarrow> [] | x # xs \<Rightarrow> if x = c then [(xs, caps)] else [])"
| "backtrack (OneOf rs) s caps =
     (case s of [] \<Rightarrow> [] | x # xs \<Rightarrow> if in_ranges rs x then [(xs, caps)] else [])"
| "backtrack (NoneOf rs) s caps =
     (case s of [] \<Rightarrow> [] | x # xs \<Rightarrow> if in_ranges rs x then [] else [(xs, caps)])"
| "backtrack AnyChar s caps =
     (case s of [] \<Rightarrow> [] | x # xs \<Rightarrow> if x = CHR ''\<newline>'' then [] else [(xs, caps)])"
| "backtrack (Cat a b) s caps =
     concat (map (\<lambda>(t, caps'). backtrack b t caps') (backtrack a s caps))"
| "backtrack (Alt a b) s caps = backtrack a s caps @ backtrack b s caps"
| "backtrack (Star a) s caps =
     concat (map (\<lambda>(t, caps'). if length t < length s then backtrack (Star a) t caps' else [])
               (backtrack a s caps))
     @ [(s, caps)]"
| "backtrack (Group n a) s caps =
     map (\<lambda>(t, caps'). (t, (n, take (length s - length t) s) # caps')) (backtrack a s caps)"

text \<open>
  The preferred match at the beginning of \<open>s\<close> (its length and its captures), and the
  leftmost match in \<open>s\<close>, where \<open>s\<close> is the text from byte offset \<open>pos\<close> on.
\<close>

definition match_here :: "regex \<Rightarrow> string \<Rightarrow> (nat \<times> captures) option" where
  "match_here re s =
     (case backtrack re s [] of
        [] \<Rightarrow> None
      | (t, caps) # _ \<Rightarrow> Some (length s - length t, caps))"

fun leftmost :: "regex \<Rightarrow> string \<Rightarrow> nat \<Rightarrow> (nat \<times> nat \<times> captures) option" where
  "leftmost re [] pos =
     (case match_here re [] of
        None \<Rightarrow> None
      | Some (n, caps) \<Rightarrow> Some (pos, pos + n, caps))"
| "leftmost re (c # cs) pos =
     (case match_here re (c # cs) of
        None \<Rightarrow> leftmost re cs (pos + 1)
      | Some (n, caps) \<Rightarrow> Some (pos, pos + n, caps))"

lemma match_here_bound: "match_here re s = Some (n, caps) \<Longrightarrow> n \<le> length s"
  by (auto simp: match_here_def split: list.splits)

lemma leftmost_bounds:
  "leftmost re s pos = Some (i, j, caps) \<Longrightarrow> pos \<le> i \<and> i \<le> j \<and> j \<le> pos + length s"
proof (induction s arbitrary: pos)
  case Nil
  then show ?case
    by (auto split: option.splits dest: match_here_bound)
next
  case (Cons c cs)
  show ?case
  proof (cases "match_here re (c # cs)")
    case None
    with Cons.prems have "leftmost re cs (pos + 1) = Some (i, j, caps)" by simp
    from Cons.IH[OF this] show ?thesis by simp
  next
    case (Some a)
    with Cons.prems show ?thesis
      by (cases a) (auto dest: match_here_bound)
  qed
qed

text \<open>
  \<open>re.FindStringSubmatch(s)\<close>: the text of the leftmost match and of the groups
  \<open>1 \<dots> re.NumSubexp()\<close> (the empty string for a group that took no part in the match);
  \<open>None\<close> is the library's \<open>nil\<close>, for no match.
\<close>

fun NumSubexp :: "regex \<Rightarrow> nat" where
  "NumSubexp (Cat a b) = max (NumSubexp a) (NumSubexp b)"
| "NumSubexp (Alt a b) = max (NumSubexp a) (NumSubexp b)"
| "NumSubexp (Star a) = NumSubexp a"
| "NumSubexp (Group n a) = max n (NumSubexp a)"
| "NumSubexp re = 0"

definition FindStringSubmatch :: "regex \<Rightarrow> string \<Rightarrow> string list option" where
  "FindStringSubmatch re s =
     (case leftmost re s 0 of
        None \<Rightarrow> None
      | Some (i, j, caps) \<Rightarrow>
          Some (take (j - i) (drop i s)
                # map (\<lambda>g. case map_of caps g of None \<Rightarrow> [] | Some v \<Rightarrow> v)
                    [1 ..< Suc (NumSubexp re)]))"

text \<open>
  \<open>re.FindAllStringIndex(s, -1)\<close>: the spans \<open>[start, end)\<close> of the successive
  non-overlapping matches. After a match the search goes on at its end; after an empty
  match it goes on one byte further (none of the compiled patterns matches the empty
  string).
\<close>

function find_all :: "regex \<Rightarrow> string \<Rightarrow> nat \<Rightarrow> (nat \<times> nat) list" where
  "find_all re s pos =
     (case leftmost re s pos of
        None \<Rightarrow> []
      | Some (i, j, caps) \<Rightarrow>
          (i, j) # (let next = (if i < j then j else j + 1)
                    in if length s < next - pos then []
                       else find_all re (drop (next - pos) s) next))"
  by pat_completeness auto
termination
  by (relation "measure (\<lambda>(re, s, pos). length s)")
    (auto dest!: leftmost_bounds split: if_splits)

declare find_all.simps [simp del]

definition FindAllStringIndex :: "regex \<Rightarrow> string \<Rightarrow> (nat \<times> nat) list" where
  "FindAllStringIndex re s = find_all re s 0"

section \<open>Worker pool: \<open>Batch\<close>\<close>

text \<open>
  \<^verbatim>\<open>
  func Batch[T any](items []T, batchSize int) [][]T {
      if batchSize <= 0 { batchSize = 1 }
      var batches [][]T
      for i := 0; i < len(items); i += batchSize {
          end := i + batchSize
          if end > len(items) { end = len(items) }
          batches = append(batches, items[i:end])
      }
      return batches
  }
  \<close>
  The loop is modelled on its own, with the step as a natural number. With a step of 0 it
  would not end, so the loop returns an option; \<open>Batch\<close> normalises the step first, as the
  source does. Inside the loop \<open>i < len(items)\<close> and \<open>i < end \<le> len(items)\<close>, so the slice
  expression \<open>items[i:end]\<close> is always in range.
\<close>

partial_function (option) Batch_loop ::
  "'a list \<Rightarrow> nat \<Rightarrow> nat \<Rightarrow> 'a list list \<Rightarrow> 'a list list option" where
  "Batch_loop items batchSize i batches =
     (if i < length items then
        (let e = (if i + batchSize > length items then length items else i + batchSize)
         in Batch_loop items batchSize (i + batchSize) (batches @ [take (e - i) (drop i items)]))
      else Some batches)"

definition Batch :: "'a list \<Rightarrow> int \<Rightarrow> 'a list list option" where
  "Batch items batchSize =
     Batch_loop items (if batchSize \<le> 0 then 1 else nat batchSize) 0 []"

section \<open>Translation cache (package \<open>cache\<close>)\<close>

text \<open>
  \<^verbatim>\<open>
  type TranslationCache struct {
      queries *dbgen.Queries
      mu      sync.RWMutex
      memory  map[string]string // hash -> translated text
  }
  \<close>
  The durable tier is the table \<open>translation_cache(hash PRIMARY KEY, source, translated)\<close>
  behind \<open>queries\<close>; it is part of the state, together with the list of the statements
  sent to it. Each call is modelled as it runs alone (the lock \<open>mu\<close> serialises the
  accesses to \<open>memory\<close>). Whether a round trip to the database succeeds under the
  call's context is an input \<open>db_ok\<close> of the call.
\<close>

datatype db_error = ErrNoRows | ErrConnection

datatype db_statement = GetCachedTranslationStmt string | UpsertCachedTranslationStmt string

datatype cache_error = CacheSetError db_error

record TranslationCache =
  memory :: "string \<rightharpoonup> string"
  translation_cache :: "string \<rightharpoonup> string \<times> string"
  statements :: "db_statement list"

text \<open>
  \<^verbatim>\<open>
  -- name: GetCachedTranslation :one
  SELECT translated FROM translation_cache WHERE hash = $1;
  -- name: UpsertCachedTranslation :exec
  INSERT INTO translation_cache (hash, source, translated) VALUES ($1, $2, $3)
  ON CONFLICT (hash) DO UPDATE SET translated = EXCLUDED.translated;
  \<close>
\<close>

definition GetCachedTranslation ::
  "bool \<Rightarrow> string \<Rightarrow> TranslationCache \<Rightarrow> (db_error + string) \<times> TranslationCache" where
  "GetCachedTranslation db_ok hash c =
     (let c' = c\<lparr>statements := statements c @ [GetCachedTranslationStmt hash]\<rparr>
      in if \<not> db_ok then (Inl ErrConnection, c')
         else case translation_cache c hash of
                None \<Rightarrow> (Inl ErrNoRows, c')
              | Some (source, translated) \<Rightarrow> (Inr translated, c'))"

definition UpsertCachedTranslation ::
  "bool \<Rightarrow> string \<Rightarrow> string \<Rightarrow> string \<Rightarrow> TranslationCache
     \<Rightarrow> db_error option \<times> TranslationCache" where
  "UpsertCachedTranslation db_ok hash source translated c =
     (let c' = c\<lparr>statements := statements c @ [UpsertCachedTranslationStmt hash]\<rparr>
      in if \<not> db_ok then (Some ErrConnection, c')
         else case translation_cache c hash of
                None \<Rightarrow>
                  (None, c'\<lparr>translation_cache :=
                              (translation_cache c)(hash \<mapsto> (source, translated))\<rparr>)
              | Some (source0, translated0) \<Rightarrow>
                  (None, c'\<lparr>translation_cache :=
                              (translation_cache c)(hash \<mapsto> (source0, translated))\<rparr>))"

text \<open>
  \<^verbatim>\<open>
  func (c *TranslationCache) Get(ctx context.Context, sourceText string) (string, bool) {
      hash := textutil.Hash(sourceText)
      // Check in-memory cache first.
      c.mu.RLock()
      if v, ok := c.memory[hash]; ok { c.mu.RUnlock(); return v, true }
      c.mu.RUnlock()
      // Check PostgreSQL via sqlc.
      translated, err := c.queries.GetCachedTranslation(ctx, hash)
      if err != nil { return "", false }
      // Populate in-memory cache.
      c.mu.Lock(); c.memory[hash] = translated; c.mu.Unlock()
      return translated, true
  }
  \<close>
\<close>

definition Get ::
  "(string \<Rightarrow> string) \<Rightarrow> bool \<Rightarrow> string \<Rightarrow> TranslationCache
     \<Rightarrow> (string \<times> bool) \<times> TranslationCache" where
  "Get Sum256 db_ok sourceText c =
     (let hash = Hash Sum256 sourceText in
      case memory c hash of
        Some v \<Rightarrow> ((v, True), c)
      | None \<Rightarrow>
          (case GetCachedTranslation db_ok hash c of
             (Inl err, c') \<Rightarrow> (('''', False), c')
           | (Inr translated, c') \<Rightarrow>
               ((translated, True), c'\<lparr>memory := (memory c')(hash \<mapsto> translated)\<rparr>)))"

text \<open>
  \<^verbatim>\<open>
  func (c *TranslationCache) Set(ctx context.Context, sourceText, translated string) error {
      hash := textutil.Hash(sourceText)
      // Update in-memory.
      c.mu.Lock(); c.memory[hash] = translated; c.mu.Unlock()
      // Upsert via sqlc.
      err := c.queries.UpsertCachedTranslation(ctx, dbgen.UpsertCachedTranslationParams{
          Hash: hash, Source: sourceText, Translated: translated })
      if err != nil { return fmt.Errorf("cache set: %w", err) }
      return nil
  }
  \<close>
\<close>

definition Set ::
  "(string \<Rightarrow> string) \<Rightarrow> bool \<Rightarrow> string \<Rightarrow> string \<Rightarrow> TranslationCache
     \<Rightarrow> cache_error option \<times> TranslationCache" where
  "Set Sum256 db_ok sourceText translated c =
     (let hash = Hash Sum256 sourceText;
          c1 = c\<lparr>memory := (memory c)(hash \<mapsto> translated)\<rparr>
      in case UpsertCachedTranslation db_ok hash sourceText translated c1 of
           (Some err, c2) \<Rightarrow> (Some (CacheSetError err), c2)
         | (None, c2) \<Rightarrow> (None, c2))"

section \<open>Interpolation protector (package \<open>interpolation\<close>)\<close>

text \<open>
  \<^verbatim>\<open>
  type Mapping struct { Original string; Placeholder string; Index int }
  type varMatch struct { start, end int; value string }
  \<close>
  The field \<open>Index\<close> of \<open>Mapping\<close> is \<open>MappingIndex\<close> here, and the fields \<open>end\<close> and
  \<open>value\<close> of \<open>varMatch\<close> are \<open>end'\<close> and \<open>value'\<close>. The offsets come from the regular
  expression library and are not negative.
\<close>

record Mapping =
  Original :: string
  Placeholder :: string
  MappingIndex :: int

record varMatch =
  start :: nat
  end' :: nat
  value' :: string

text \<open>
  \<^verbatim>\<open>
  var patterns = []*regexp.Regexp{
      regexp.MustCompile(`\$\{[a-zA-Z_][a-zA-Z0-9_]*\}`),         // ${value}
      regexp.MustCompile(`\{[0-9]+\}`),                           // {0}, {1}
      regexp.MustCompile(`%[-+0-9]*\.?[0-9]*[dsfieEgGxXoubcpq]`), // %d, %s, %f, %2d, etc.
      regexp.MustCompile(`%%`),                                   // escaped percent literal
  }
  \<close>
\<close>

definition patterns :: "regex list" where
  "patterns =
     [Seq [Lit CHR ''$'', Lit CHR ''{'',
           OneOf [(CHR ''a'', CHR ''z''), (CHR ''A'', CHR ''Z''), (CHR ''_'', CHR ''_'')],
           Star (OneOf [(CHR ''a'', CHR ''z''), (CHR ''A'', CHR ''Z''), (CHR ''0'', CHR ''9''),
                        (CHR ''_'', CHR ''_'')]),
           Lit CHR ''}''],
      Seq [Lit CHR ''{'', Plus (OneOf [(CHR ''0'', CHR ''9'')]), Lit CHR ''}''],
      Seq [Lit CHR ''%'',
           Star (OneOf [(CHR ''-'', CHR ''-''), (CHR ''+'', CHR ''+''), (CHR ''0'', CHR ''9'')]),
           Opt (Lit CHR ''.''),
           Star (OneOf [(CHR ''0'', CHR ''9'')]),
           OneOf (map (\<lambda>c. (c, c)) ''dsfieEgGxXoubcpq'')],
      Seq [Lit CHR ''%'', Lit CHR ''%'']]"

text \<open>
  \<^verbatim>\<open>
  func sortVarMatches(matches []varMatch) {
      for i := 1; i < len(matches); i++ {
          key := matches[i]
          j := i - 1
          for j >= 0 && (matches[j].start > key.start ||
              (matches[j].start == key.start && (matches[j].end-matches[j].start) < (key.end-key.start))) {
              matches[j+1] = matches[j]
              j--
          }
          matches[j+1] = key
      }
  }
  \<close>
  An insertion sort. \<open>sortVarMatches_insert key below\<close> is the inner loop: \<open>below\<close> holds
  the sorted elements \<open>matches[i-1], \<dots>, matches[0]\<close> from the top down, and so does
  the result, with \<open>key\<close> in its place. Byte offsets are far below the range of \<open>int\<close>,
  so the two differences are those of the natural numbers (\<open>start \<le> end\<close>).
\<close>

fun sortVarMatches_insert :: "varMatch \<Rightarrow> varMatch list \<Rightarrow> varMatch list" where
  "sortVarMatches_insert key [] = [key]"
| "sortVarMatches_insert key (m # below) =
     (if start m > start key
         \<or> (start m = start key \<and> int (end' m) - int (start m) < int (end' key) - int (start key))
      then m # sortVarMatches_insert key below
      else key # m # below)"

definition sortVarMatches :: "varMatch list \<Rightarrow> varMatch list" where
  "sortVarMatches matches = rev (fold sortVarMatches_insert matches [])"

text \<open>
  \<open>fmt.Sprintf("{{var_%d}}", n)\<close> for \<open>n \<ge> 0\<close>: the decimal digits of \<open>n\<close> between the
  braces.
\<close>

function decimal :: "nat \<Rightarrow> string" where
  "decimal n =
     (if n < 10 then [char_of (48 + n)]
      else decimal (n div 10) @ [char_of (48 + n mod 10)])"
  by pat_completeness auto
termination
  by (relation "measure id") auto

declare decimal.simps [simp del]

definition placeholder_of :: "nat \<Rightarrow> string" where
  "placeholder_of n = ''{{var_'' @ decimal n @ ''}}''"

text \<open>
  \<^verbatim>\<open>
  func Protect(text string) (string, []Mapping) {
      var allMatches []varMatch
      for _, p := range patterns {
          locs := p.FindAllStringIndex(text, -1)
          for _, loc := range locs {
              allMatches = append(allMatches, varMatch{
                  start: loc[0], end: loc[1], value: text[loc[0]:loc[1]] })
          }
      }
      if len(allMatches) == 0 { return text, nil }
      // Sort by position to ensure deterministic ordering.
      sortVarMatches(allMatches)
      // Remove overlapping matches (keep the first/longest).
      var filtered []varMatch
      lastEnd := -1
      for _, m := range allMatches {
          if m.start >= lastEnd { filtered = append(filtered, m); lastEnd = m.end }
      }
      var mappings []Mapping
      result := text
      // Replace in reverse order to preserve indices.
      for i := len(filtered) - 1; i >= 0; i-- {
          m := filtered[i]
          placeholder := fmt.Sprintf("{{var_%d}}", i+1)
          mappings = append([]Mapping{{ Original: m.value, Placeholder: placeholder, Index: i + 1 }},
                            mappings...)
          result = result[:m.start] + placeholder + result[m.end:]
      }
      return result, mappings
  }
  \<close>
  The last loop runs from the last match to the first. \<open>Protect_replace filtered i text\<close>
  is that loop for the matches \<open>filtered\<close> whose first has the index \<open>i\<close>: it first
  handles the matches after the first (the recursive call), then the first one.
\<close>

definition Protect_allMatches :: "string \<Rightarrow> varMatch list" where
  "Protect_allMatches text =
     concat (map (\<lambda>p. map (\<lambda>loc. \<lparr>start = fst loc, end' = snd loc,
                                     value' = take (snd loc - fst loc) (drop (fst loc) text)\<rparr>)
                          (FindAllStringIndex p text))
               patterns)"

fun Protect_filter :: "varMatch list \<Rightarrow> int \<Rightarrow> varMatch list" where
  "Protect_filter [] lastEnd = []"
| "Protect_filter (m # ms) lastEnd =
     (if int (start m) \<ge> lastEnd then m # Protect_filter ms (int (end' m))
      else Protect_filter ms lastEnd)"

fun Protect_replace :: "varMatch list \<Rightarrow> nat \<Rightarrow> string \<Rightarrow> string \<times> Mapping list" where
  "Protect_replace [] i text = (text, [])"
| "Protect_replace (m # ms) i text =
     (case Protect_replace ms (i + 1) text of
        (result, mappings) \<Rightarrow>
          let placeholder = placeholder_of (i + 1)
          in (take (start m) result @ placeholder @ drop (end' m) result,
              \<lparr>Original = value' m, Placeholder = placeholder, MappingIndex = int i + 1\<rparr>
                # mappings))"

definition Protect :: "string \<Rightarrow> string \<times> Mapping list" where
  "Protect text =
     (let allMatches = Protect_allMatches text
      in if length allMatches = 0 then (text, [])
         else
           let sorted = sortVarMatches allMatches;
               filtered = Protect_filter sorted (- 1)
           in Protect_replace filtered 0 text)"

text \<open>
  \<^verbatim>\<open>
  func Restore(translated string, mappings []Mapping) string {
      result := translated
      for _, m := range mappings {
          result = strings.Replace(result, m.Placeholder, m.Original, 1)
      }
      return result
  }
  \<close>
\<close>

definition Restore :: "string \<Rightarrow> Mapping list \<Rightarrow> string" where
  "Restore translated mappings =
     fold (\<lambda>m result. Replace1 result (Placeholder m) (Original m)) mappings translated"

section \<open>Format parsers (package \<open>parser\<close>)\<close>

text \<open>
  \<^verbatim>\<open>
  type ExtractedText struct {
      Text string; File string
      Line int     // 1-based line number
      Column int   // 0-based column for tab-separated files (-1 if not applicable)
      Context map[string]string
  }
  type ParseResult struct {
      FilePath string; FileType string
      Texts []ExtractedText
      RawLines []string
  }
  \<close>
\<close>

record ExtractedText =
  Text :: string
  File :: string
  Line :: int
  Column :: int
  Context :: "string \<rightharpoonup> string"

record ParseResult =
  FilePath :: string
  FileType :: string
  Texts :: "ExtractedText list"
  RawLines :: "string list"

datatype parse_error = OpenError | ScanError

definition tab :: char where
  "tab = CHR 0x09"

subsection \<open>TXT parser: detection of tab-separated files\<close>

text \<open>
  \<^verbatim>\<open>
  func detectTSV(lines []string) bool {
      if len(lines) < 2 { return false }
      tabCounts := make(map[int]int)
      sampleSize := min(len(lines), 20)
      nonEmptyLines := 0
      for i := 0; i < sampleSize; i++ {
          line := lines[i]
          if strings.TrimSpace(line) == "" { continue }
          nonEmptyLines++
          count := strings.Count(line, "\t")
          if count > 0 { tabCounts[count]++ }
      }
      if nonEmptyLines == 0 { return false }
      // Find the most common tab count.
      maxCount := 0
      for _, c := range tabCounts { if c > maxCount { maxCount = c } }
      // If >60% of non-empty lines share the same tab count, it's TSV.
      return float64(maxCount)/float64(nonEmptyLines) > 0.6
  }
  \<close>
  The map \<open>tabCounts\<close> is an association list with one entry per key. The loop over it
  computes a maximum, so the order in which Go visits the entries does not matter. Both
  counters are at most 20, so the conversions to \<open>float64\<close> are exact, the quotient is
  the correctly rounded one and it exceeds the constant \<open>0.6\<close> exactly when the exact
  quotient exceeds 6/10; the comparison is written over the reals.
\<close>

definition tabCounts_incr :: "(nat \<times> nat) list \<Rightarrow> nat \<Rightarrow> (nat \<times> nat) list" where
  "tabCounts_incr tabCounts count =
     (if count \<in> fst ` set tabCounts
      then map (\<lambda>(k, v). if k = count then (k, v + 1) else (k, v)) tabCounts
      else tabCounts @ [(count, 1)])"

fun detectTSV_sample ::
  "string list \<Rightarrow> (nat \<times> nat) list \<Rightarrow> nat \<Rightarrow> (nat \<times> nat) list \<times> nat" where
  "detectTSV_sample [] tabCounts nonEmptyLines = (tabCounts, nonEmptyLines)"
| "detectTSV_sample (line # rest) tabCounts nonEmptyLines =
     (if TrimSpace line = [] then detectTSV_sample rest tabCounts nonEmptyLines
      else
        let count = Count line tab
        in detectTSV_sample rest
             (if count > 0 then tabCounts_incr tabCounts count else tabCounts)
             (nonEmptyLines + 1))"

definition detectTSV :: "string list \<Rightarrow> bool" where
  "detectTSV lines =
     (if length lines < 2 then False
      else
        let sampleSize = min (length lines) 20;
            (tabCounts, nonEmptyLines) = detectTSV_sample (take sampleSize lines) [] 0
        in
          if nonEmptyLines = 0 then False
          else
            let maxCount = fold (\<lambda>(k, c) maxCount. if c > maxCount then c else maxCount)
                             tabCounts 0
            in real maxCount / real nonEmptyLines > 0.6)"

subsection \<open>TXT parser: extraction\<close>

text \<open>
  \<^verbatim>\<open>
  func isTranslatableColumn(col string) bool {
      if col == "" || !textutil.ContainsChinese(col) { return false }
      hasNonASCII := false
      for _, r := range col { if r > 127 { hasNonASCII = true; break } }
      if !hasNonASCII { return false }
      return utf8.RuneCountInString(col) >= 2
  }
  \<close>
\<close>

definition isTranslatableColumn :: "string \<Rightarrow> bool" where
  "isTranslatableColumn col =
     (if col = [] \<or> \<not> ContainsChinese col then False
      else
        let hasNonASCII = list_ex (\<lambda>r. r > 127) (runes col)
        in if \<not> hasNonASCII then False else RuneCountInString col \<ge> 2)"

text \<open>
  \<^verbatim>\<open>
  func (p *TXTParser) parseTSV(result *ParseResult, filePath string) {
      for lineNum, line := range result.RawLines {
          if strings.TrimSpace(line) == "" { continue }
          cols := strings.Split(line, "\t")
          for colIdx, col := range cols {
              if !isTranslatableColumn(col) { continue }
              ctx := map[string]string{ "file": filePath, "format": "tsv" }
              if len(cols) > 0 && colIdx > 0 { ctx["id"] = cols[0] }
              result.Texts = append(result.Texts, ExtractedText{
                  Text: col, File: filePath, Line: lineNum + 1, Column: colIdx, Context: ctx })
          }
      }
  }
  \<close>
\<close>

definition parseTSV_col :: "string \<Rightarrow> nat \<Rightarrow> string list \<Rightarrow> nat \<Rightarrow> string \<Rightarrow> ExtractedText list"
  where
  "parseTSV_col filePath lineNum cols colIdx col =
     (if \<not> isTranslatableColumn col then []
      else
        let ctx = [''file'' \<mapsto> filePath, ''format'' \<mapsto> ''tsv''];
            ctx' = (if length cols > 0 \<and> colIdx > 0 then ctx(''id'' \<mapsto> cols ! 0) else ctx)
        in [\<lparr>Text = col, File = filePath, Line = int lineNum + 1, Column = int colIdx,
              Context = ctx'\<rparr>])"

definition parseTSV_line :: "string \<Rightarrow> nat \<Rightarrow> string \<Rightarrow> ExtractedText list" where
  "parseTSV_line filePath lineNum line =
     (if TrimSpace line = [] then []
      else
        let cols = Split line [tab]
        in concat (map (\<lambda>(colIdx, col). parseTSV_col filePath lineNum cols colIdx col)
                     (enumerate 0 cols)))"

definition parseTSV :: "ParseResult \<Rightarrow> string \<Rightarrow> ParseResult" where
  "parseTSV result filePath =
     result\<lparr>Texts := Texts result
        @ concat (map (\<lambda>(lineNum, line). parseTSV_line filePath lineNum line)
                    (enumerate 0 (RawLines result)))\<rparr>"

text \<open>
  \<^verbatim>\<open>
  func (p *TXTParser) parsePlainText(result *ParseResult, filePath string) {
      for lineNum, line := range result.RawLines {
          trimmed := strings.TrimSpace(line)
          if trimmed == "" || !textutil.ContainsChinese(trimmed) { continue }
          ctx := map[string]string{ "file": filePath, "format": "txt" }
          result.Texts = append(result.Texts, ExtractedText{
              Text: trimmed, File: filePath, Line: lineNum + 1, Column: -1, Context: ctx })
      }
  }
  \<close>
\<close>

definition parsePlainText_line :: "string \<Rightarrow> nat \<Rightarrow> string \<Rightarrow> ExtractedText list" where
  "parsePlainText_line filePath lineNum line =
     (let trimmed = TrimSpace line
      in if trimmed = [] \<or> \<not> ContainsChinese trimmed then []
         else [\<lparr>Text = trimmed, File = filePath, Line = int lineNum + 1, Column = - 1,
                 Context = [''file'' \<mapsto> filePath, ''format'' \<mapsto> ''txt'']\<rparr>])"

definition parsePlainText :: "ParseResult \<Rightarrow> string \<Rightarrow> ParseResult" where
  "parsePlainText result filePath =
     result\<lparr>Texts := Texts result
        @ concat (map (\<lambda>(lineNum, line). parsePlainText_line filePath lineNum line)
                    (enumerate 0 (RawLines result)))\<rparr>"

text \<open>
  \<open>TXTParser.Parse\<close> opens the file and reads its lines with a \<open>bufio.Scanner\<close>; either
  step can fail. What the two steps give is the argument \<open>file\<close> of the model: an error,
  or the lines of the file.
  \<^verbatim>\<open>
      isTSV := detectTSV(rawLines)
      result := &ParseResult{ FilePath: filePath, RawLines: rawLines }
      if isTSV { result.FileType = "tsv"; p.parseTSV(result, filePath)
      } else   { result.FileType = "txt"; p.parsePlainText(result, filePath) }
      return result, nil
  \<close>
\<close>

definition TXTParser_Parse :: "parse_error + string list \<Rightarrow> string \<Rightarrow> parse_error + ParseResult"
  where
  "TXTParser_Parse file filePath =
     (case file of
        Inl err \<Rightarrow> Inl err
      | Inr rawLines \<Rightarrow>
          let isTSV = detectTSV rawLines;
              result = \<lparr>FilePath = filePath, FileType = [], Texts = [], RawLines = rawLines\<rparr>
          in if isTSV then Inr (parseTSV (result\<lparr>FileType := ''tsv''\<rparr>) filePath)
             else Inr (parsePlainText (result\<lparr>FileType := ''txt''\<rparr>) filePath))"

subsection \<open>Reconstruction\<close>

text \<open>
  All three \<open>Reconstruct\<close> methods return \<open>([]byte, error)\<close> with an error that is
  always \<open>nil\<close>; the model returns the bytes. \<open>translations\<close> is the map from source
  text to translated text.
  \<^verbatim>\<open>
  func (p *TXTParser) reconstructTSV(lines []string, result *ParseResult,
                                     translations map[string]string) ([]byte, error) {
      for _, et := range result.Texts {
          idx := et.Line - 1
          if idx < 0 || idx >= len(lines) { continue }
          translated, ok := translations[et.Text]
          if !ok { continue }
          cols := strings.Split(lines[idx], "\t")
          if et.Column >= 0 && et.Column < len(cols) { cols[et.Column] = translated }
          lines[idx] = strings.Join(cols, "\t")
      }
      return []byte(strings.Join(lines, "\n") + "\n"), nil
  }
  \<close>
\<close>

definition reconstructTSV_step ::
  "(string \<rightharpoonup> string) \<Rightarrow> ExtractedText \<Rightarrow> string list \<Rightarrow> string list" where
  "reconstructTSV_step translations et lines =
     (let idx = Line et - 1 in
      if idx < 0 \<or> idx \<ge> int (length lines) then lines
      else case translations (Text et) of
             None \<Rightarrow> lines
           | Some translated \<Rightarrow>
               let cols = Split (lines ! nat idx) [tab];
                   cols' = (if Column et \<ge> 0 \<and> Column et < int (length cols)
                            then cols[nat (Column et) := translated] else cols)
               in lines[nat idx := Join cols' [tab]])"

definition reconstructTSV ::
  "string list \<Rightarrow> ParseResult \<Rightarrow> (string \<rightharpoonup> string) \<Rightarrow> string" where
  "reconstructTSV lines result translations =
     Join (fold (reconstructTSV_step translations) (Texts result) lines) ''\<newline>''
       @ ''\<newline>''"

text \<open>
  \<^verbatim>\<open>
  func (p *TXTParser) reconstructPlainText(lines []string, result *ParseResult,
                                           translations map[string]string) ([]byte, error) {
      for _, et := range result.Texts {
          idx := et.Line - 1
          if idx < 0 || idx >= len(lines) { continue }
          translated, ok := translations[et.Text]
          if !ok { continue }
          original := lines[idx]
          trimmed := strings.TrimSpace(original)
          lines[idx] = strings.Replace(original, trimmed, translated, 1)
      }
      return []byte(strings.Join(lines, "\n") + "\n"), nil
  }
  \<close>
\<close>

definition reconstructPlainText_step ::
  "(string \<rightharpoonup> string) \<Rightarrow> ExtractedText \<Rightarrow> string list \<Rightarrow> string list" where
  "reconstructPlainText_step translations et lines =
     (let idx = Line et - 1 in
      if idx < 0 \<or> idx \<ge> int (length lines) then lines
      else case translations (Text et) of
             None \<Rightarrow> lines
           | Some translated \<Rightarrow>
               let original = lines ! nat idx;
                   trimmed = TrimSpace original
               in lines[nat idx := Replace1 original trimmed translated])"

definition reconstructPlainText ::
  "string list \<Rightarrow> ParseResult \<Rightarrow> (string \<rightharpoonup> string) \<Rightarrow> string" where
  "reconstructPlainText lines result translations =
     Join (fold (reconstructPlainText_step translations) (Texts result) lines) ''\<newline>''
       @ ''\<newline>''"

text \<open>
  \<^verbatim>\<open>
  func (p *TXTParser) Reconstruct(result *ParseResult, translations map[string]string) ([]byte, error) {
      lines := make([]string, len(result.RawLines))
      copy(lines, result.RawLines)
      if result.FileType == "tsv" { return p.reconstructTSV(lines, result, translations) }
      return p.reconstructPlainText(lines, result, translations)
  }
  \<close>
\<close>

definition TXTParser_Reconstruct :: "ParseResult \<Rightarrow> (string \<rightharpoonup> string) \<Rightarrow> string" where
  "TXTParser_Reconstruct result translations =
     (let lines = RawLines result
      in if FileType result = ''tsv'' then reconstructTSV lines result translations
         else reconstructPlainText lines result translations)"

text \<open>
  \<^verbatim>\<open>
  func (p *LuaParser) Reconstruct(result *ParseResult, translations map[string]string) ([]byte, error) {
      lines := make([]string, len(result.RawLines))
      copy(lines, result.RawLines)
      // Group by line number and process.
      lineReplacements := make(map[int][]ExtractedText)
      for _, et := range result.Texts {
          lineReplacements[et.Line] = append(lineReplacements[et.Line], et)
      }
      for lineNum, texts := range lineReplacements {
          idx := lineNum - 1
          if idx < 0 || idx >= len(lines) { continue }
          line := lines[idx]
          for _, et := range texts {
              if translated, ok := translations[et.Text]; ok {
                  line = strings.Replace(line, et.Text, translated, 1)
              }
          }
          lines[idx] = line
      }
      return []byte(strings.Join(lines, "\n") + "\n"), nil
  }
  \<close>
  The map \<open>lineReplacements\<close> is an association list with one entry per line number, in
  the order in which the line numbers first occur. Go visits the entries of a map in
  an unspecified order; each entry reads and writes only the line of its own key, so
  every order gives the same lines.
\<close>

fun lineReplacements_append ::
  "(int \<times> ExtractedText list) list \<Rightarrow> ExtractedText \<Rightarrow> (int \<times> ExtractedText list) list" where
  "lineReplacements_append [] et = [(Line et, [et])]"
| "lineReplacements_append ((k, texts) # m) et =
     (if k = Line et then (k, texts @ [et]) # m
      else (k, texts) # lineReplacements_append m et)"

definition LuaParser_replace_text ::
  "(string \<rightharpoonup> string) \<Rightarrow> ExtractedText \<Rightarrow> string \<Rightarrow> string" where
  "LuaParser_replace_text translations et line =
     (case translations (Text et) of
        Some translated \<Rightarrow> Replace1 line (Text et) translated
      | None \<Rightarrow> line)"

definition LuaParser_replace_line ::
  "(string \<rightharpoonup> string) \<Rightarrow> int \<times> ExtractedText list \<Rightarrow> string list \<Rightarrow> string list" where
  "LuaParser_replace_line translations entry lines =
     (let idx = fst entry - 1 in
      if idx < 0 \<or> idx \<ge> int (length lines) then lines
      else
        let line = fold (LuaParser_replace_text translations) (snd entry) (lines ! nat idx)
        in lines[nat idx := line])"

definition LuaParser_Reconstruct :: "ParseResult \<Rightarrow> (string \<rightharpoonup> string) \<Rightarrow> string" where
  "LuaParser_Reconstruct result translations =
     (let lines = RawLines result;
          lineReplacements = fold (\<lambda>et m. lineReplacements_append m et) (Texts result) []
      in Join (fold (LuaParser_replace_line translations) lineReplacements lines) ''\<newline>''
           @ ''\<newline>'')"

text \<open>
  \<^verbatim>\<open>
  func (p *INIParser) Reconstruct(result *ParseResult, translations map[string]string) ([]byte, error) {
      lines := make([]string, len(result.RawLines))
      copy(lines, result.RawLines)
      for _, et := range result.Texts {
          idx := et.Line - 1
          if idx < 0 || idx >= len(lines) { continue }
          translated, ok := translations[et.Text]
          if !ok { continue }
          line := lines[idx]
          eqIdx := strings.Index(line, "=")
          if eqIdx < 0 { continue }
          // Preserve leading whitespace after =.
          afterEq := line[eqIdx+1:]
          leadingSpaces := ""
          for _, ch := range afterEq {
              if ch == ' ' || ch == '\t' { leadingSpaces += string(ch) } else { break }
          }
          lines[idx] = line[:eqIdx+1] + leadingSpaces + translated
      }
      return []byte(strings.Join(lines, "\n") + "\n"), nil
  }
  \<close>
  The runes that the inner loop keeps are the space and the tab, each one byte long.
\<close>

definition INIParser_step ::
  "(string \<rightharpoonup> string) \<Rightarrow> ExtractedText \<Rightarrow> string list \<Rightarrow> string list" where
  "INIParser_step translations et lines =
     (let idx = Line et - 1 in
      if idx < 0 \<or> idx \<ge> int (length lines) then lines
      else case translations (Text et) of
             None \<Rightarrow> lines
           | Some translated \<Rightarrow>
               let line = lines ! nat idx in
               (case Index line ''='' of
                  None \<Rightarrow> lines
                | Some eqIdx \<Rightarrow>
                    let afterEq = drop (eqIdx + 1) line;
                        leadingSpaces =
                          map char_of (takeWhile (\<lambda>ch. ch = 0x20 \<or> ch = 0x09) (runes afterEq))
                    in lines[nat idx := take (eqIdx + 1) line @ leadingSpaces @ translated]))"

definition INIParser_Reconstruct :: "ParseResult \<Rightarrow> (string \<rightharpoonup> string) \<Rightarrow> string" where
  "INIParser_Reconstruct result translations =
     (let lines = RawLines result
      in Join (fold (INIParser_step translations) (Texts result) lines) ''\<newline>''
           @ ''\<newline>'')"

section \<open>Seed ingestor (package \<open>seed\<close>)\<close>

text \<open>
  \<^verbatim>\<open>
  type SeedEntry struct {
      SourceText, TranslatedText, File, Function, EntityType, Hash string
  }
  type diffHunk struct { removed []string; added []string }
  \<close>
  The fields \<open>File\<close> and \<open>Hash\<close> are \<open>SeedFile\<close> and \<open>SeedHash\<close> here.
\<close>

record SeedEntry =
  SourceText :: string
  TranslatedText :: string
  SeedFile :: string
  Function :: string
  EntityType :: string
  SeedHash :: string

record diffHunk =
  removed :: "string list"
  added :: "string list"

subsection \<open>Entity-type inference\<close>

text \<open>
  \<^verbatim>\<open>
  var entityPatterns = map[string]string{
      "skill": "skill", "buff": "buff", "item": "item", "equip": "item",
      "weapon": "item", "quest": "quest", "npc": "character", "char": "character",
      "map": "location", "scene": "location", "ui": "ui", "dialog": "dialog",
      "chat": "dialog", "faction": "faction", "guild": "faction",
      "mount": "mount", "pet": "pet",
  }
  var termEntityMap = map[string]string{
      "\<dots>": "skill", \<dots>  // eleven terms in Han characters, here as their UTF-8 bytes
  }
  \<close>
  The entries of the two maps, in the order of the source text.
\<close>

definition entityPatterns :: "(string \<times> string) list" where
  "entityPatterns =
     [(''skill'', ''skill''), (''buff'', ''buff''), (''item'', ''item''), (''equip'', ''item''),
      (''weapon'', ''item''), (''quest'', ''quest''), (''npc'', ''character''),
      (''char'', ''character''), (''map'', ''location''), (''scene'', ''location''),
      (''ui'', ''ui''), (''dialog'', ''dialog''), (''chat'', ''dialog''),
      (''faction'', ''faction''), (''guild'', ''faction''), (''mount'', ''mount''),
      (''pet'', ''pet'')]"

definition termEntityMap :: "(string \<times> string) list" where
  "termEntityMap =
     [([CHR 0xE6, CHR 0x8A, CHR 0x80, CHR 0xE8, CHR 0x83, CHR 0xBD], ''skill''),
      ([CHR 0xE6, CHR 0xAD, CHR 0xA6, CHR 0xE5, CHR 0x8A, CHR 0x9F], ''skill''),
      ([CHR 0xE5, CHR 0xBF, CHR 0x83, CHR 0xE6, CHR 0xB3, CHR 0x95], ''skill''),
      ([CHR 0xE8, CHR 0xA3, CHR 0x85, CHR 0xE5, CHR 0xA4, CHR 0x87], ''item''),
      ([CHR 0xE4, CHR 0xB8, CHR 0xB9, CHR 0xE8, CHR 0x8D, CHR 0xAF], ''item''),
      ([CHR 0xE7, CHR 0xA7, CHR 0x98, CHR 0xE7, CHR 0xB1, CHR 0x8D], ''item''),
      ([CHR 0xE5, CHR 0x89, CHR 0xAF, CHR 0xE6, CHR 0x9C, CHR 0xAC], ''dungeon''),
      ([CHR 0xE4, CHR 0xBB, CHR 0xBB, CHR 0xE5, CHR 0x8A, CHR 0xA1], ''quest''),
      ([CHR 0xE9, CHR 0x97, CHR 0xA8, CHR 0xE6, CHR 0xB4, CHR 0xBE], ''faction''),
      ([CHR 0xE5, CHR 0xB8, CHR 0xAE, CHR 0xE6, CHR 0xB4, CHR 0xBE], ''faction''),
      ([CHR 0xE5, CHR 0x9D, CHR 0x90, CHR 0xE9, CHR 0xAA, CHR 0x91], ''mount'')]"

text \<open>
  \<open>strings.ToLower\<close> lowers the letters \<open>A\<close> to \<open>Z\<close> of a string that is all ASCII;
  any other string it maps rune by rune with \<open>unicode.ToLower\<close>. That second path of
  the library is the parameter \<open>mapLower\<close>.
\<close>

definition ToLower :: "(string \<Rightarrow> string) \<Rightarrow> string \<Rightarrow> string" where
  "ToLower mapLower s =
     (if list_all (\<lambda>c. (of_char c :: int) < 0x80) s
      then map (\<lambda>c. if (0x41 :: int) \<le> of_char c \<and> (of_char c :: int) \<le> 0x5A
                      then char_of (of_char c + (0x20 :: int)) else c) s
      else mapLower s)"

text \<open>
  \<^verbatim>\<open>
  func detectEntityType(file, function, text string) string {
      fileLower := strings.ToLower(file)
      funcLower := strings.ToLower(function)
      for pattern, entityType := range entityPatterns {
          if strings.Contains(fileLower, pattern) || strings.Contains(funcLower, pattern) {
              return entityType
          }
      }
      for term, entityType := range termEntityMap {
          if strings.Contains(text, term) { return entityType }
      }
      return "general"
  }
  \<close>
  Go does not specify the order in which \<open>range\<close> visits the entries of a map, and the
  order changes from one execution of the loop to the next. The order in which a call
  visits the entries of each of the two maps is therefore an input of the model:
  \<open>patternOrder\<close> is a permutation of \<open>entityPatterns\<close> and \<open>termOrder\<close> a
  permutation of \<open>termEntityMap\<close>.
\<close>

definition detectEntityType ::
  "(string \<Rightarrow> string) \<Rightarrow> (string \<times> string) list \<Rightarrow> (string \<times> string) list
     \<Rightarrow> string \<Rightarrow> string \<Rightarrow> string \<Rightarrow> string" where
  "detectEntityType mapLower patternOrder termOrder file function text =
     (let fileLower = ToLower mapLower file;
          funcLower = ToLower mapLower function
      in case find (\<lambda>(pattern, entityType).
                      Contains fileLower pattern \<or> Contains funcLower pattern) patternOrder of
           Some (pattern, entityType) \<Rightarrow> entityType
         | None \<Rightarrow>
             (case find (\<lambda>(term, entityType). Contains text term) termOrder of
                Some (term, entityType) \<Rightarrow> entityType
              | None \<Rightarrow> ''general''))"

subsection \<open>Pairs of removed and added lines\<close>

text \<open>
  \<^verbatim>\<open>
  var luaFuncExtractor = regexp.MustCompile(`([a-zA-Z_][a-zA-Z0-9_.:]*)s*\(`)
  var luaStringRe = regexp.MustCompile(`"([^"\\]*(?:\\.[^"\\]*)*)"|'([^'\\]*(?:\\.[^'\\]*)*)'`)
  \<close>
\<close>

definition luaFuncExtractor :: regex where
  "luaFuncExtractor =
     Seq [Group 1 (Seq [OneOf [(CHR ''a'', CHR ''z''), (CHR ''A'', CHR ''Z''), (CHR ''_'', CHR ''_'')],
                        Star (OneOf [(CHR ''a'', CHR ''z''), (CHR ''A'', CHR ''Z''),
                                     (CHR ''0'', CHR ''9''), (CHR ''_'', CHR ''_''),
                                     (CHR ''.'', CHR ''.''), (CHR '':'', CHR '':'')])]),
          Star (Lit CHR ''s''),
          Lit CHR ''('']"

definition luaStringRe :: regex where
  "luaStringRe =
     Alt
       (Seq [Lit CHR 0x22,
             Group 1 (Seq [Star (NoneOf [(CHR 0x22, CHR 0x22), (CHR 0x5C, CHR 0x5C)]),
                           Star (Seq [Lit CHR 0x5C, AnyChar,
                                      Star (NoneOf [(CHR 0x22, CHR 0x22), (CHR 0x5C, CHR 0x5C)])])]),
             Lit CHR 0x22])
       (Seq [Lit CHR 0x27,
             Group 2 (Seq [Star (NoneOf [(CHR 0x27, CHR 0x27), (CHR 0x5C, CHR 0x5C)]),
                           Star (Seq [Lit CHR 0x5C, AnyChar,
                                      Star (NoneOf [(CHR 0x27, CHR 0x27), (CHR 0x5C, CHR 0x5C)])])]),
             Lit CHR 0x27])"

text \<open>
  \<^verbatim>\<open>
  func extractLuaPair(source, translated string) (string, string, string) {
      srcMatches := luaStringRe.FindStringSubmatch(source)
      dstMatches := luaStringRe.FindStringSubmatch(translated)
      if srcMatches == nil || dstMatches == nil { return "", "", "" }
      srcText := srcMatches[1]
      if srcText == "" { srcText = srcMatches[2] }
      dstText := dstMatches[1]
      if dstText == "" { dstText = dstMatches[2] }
      fnName := ""
      if fnMatch := luaFuncExtractor.FindStringSubmatch(source); fnMatch != nil {
          fnName = fnMatch[1]
      }
      return srcText, dstText, fnName
  }
  \<close>
  A match of \<open>luaStringRe\<close> has three elements and one of \<open>luaFuncExtractor\<close> two, so the
  index expressions are in range.
\<close>

definition extractLuaPair :: "string \<Rightarrow> string \<Rightarrow> string \<times> string \<times> string" where
  "extractLuaPair source translated =
     (case (FindStringSubmatch luaStringRe source, FindStringSubmatch luaStringRe translated) of
        (Some srcMatches, Some dstMatches) \<Rightarrow>
          let srcText = (if srcMatches ! 1 = [] then srcMatches ! 2 else srcMatches ! 1);
              dstText = (if dstMatches ! 1 = [] then dstMatches ! 2 else dstMatches ! 1);
              fnName = (case FindStringSubmatch luaFuncExtractor source of
                          Some fnMatch \<Rightarrow> fnMatch ! 1
                        | None \<Rightarrow> [])
          in (srcText, dstText, fnName)
      | _ \<Rightarrow> ([], [], []))"

text \<open>
  \<open>strings.SplitN(s, "=", 2)\<close>: the text before and the text after the first \<open>=\<close>, or
  \<open>s\<close> alone when it has no \<open>=\<close>.
  \<^verbatim>\<open>
  func extractINIPair(source, translated string) (string, string, string) {
      srcParts := strings.SplitN(source, "=", 2)
      dstParts := strings.SplitN(translated, "=", 2)
      if len(srcParts) != 2 || len(dstParts) != 2 { return "", "", "" }
      if strings.TrimSpace(srcParts[0]) != strings.TrimSpace(dstParts[0]) { return "", "", "" }
      return strings.TrimSpace(srcParts[1]), strings.TrimSpace(dstParts[1]), ""
  }
  \<close>
\<close>

definition SplitN2 :: "string \<Rightarrow> string \<Rightarrow> string list" where
  "SplitN2 s sep =
     (case Index s sep of
        None \<Rightarrow> [s]
      | Some i \<Rightarrow> [take i s, drop (i + length sep) s])"

definition extractINIPair :: "string \<Rightarrow> string \<Rightarrow> string \<times> string \<times> string" where
  "extractINIPair source translated =
     (let srcParts = SplitN2 source ''='';
          dstParts = SplitN2 translated ''=''
      in if length srcParts \<noteq> 2 \<or> length dstParts \<noteq> 2 then ([], [], [])
         else if TrimSpace (srcParts ! 0) \<noteq> TrimSpace (dstParts ! 0) then ([], [], [])
         else (TrimSpace (srcParts ! 1), TrimSpace (dstParts ! 1), []))"

text \<open>
  \<^verbatim>\<open>
  func extractTXTPair(source, translated string) (string, string, string) {
      srcCols := strings.Split(source, "\t")
      dstCols := strings.Split(translated, "\t")
      if len(srcCols) != len(dstCols) || len(srcCols) < 2 { return "", "", "" }
      for i := range srcCols {
          if srcCols[i] != dstCols[i] && textutil.ContainsChinese(srcCols[i]) {
              return srcCols[i], dstCols[i], ""
          }
      }
      return "", "", ""
  }
  \<close>
\<close>

definition extractTXTPair :: "string \<Rightarrow> string \<Rightarrow> string \<times> string \<times> string" where
  "extractTXTPair source translated =
     (let srcCols = Split source [tab];
          dstCols = Split translated [tab]
      in if length srcCols \<noteq> length dstCols \<or> length srcCols < 2 then ([], [], [])
         else case find (\<lambda>(src, dst). src \<noteq> dst \<and> ContainsChinese src) (zip srcCols dstCols) of
                Some (src, dst) \<Rightarrow> (src, dst, [])
              | None \<Rightarrow> ([], [], []))"

text \<open>
  \<^verbatim>\<open>
  func extractTextPair(source, translated, ext string) (string, string, string) {
      switch ext {
      case ".lua": return extractLuaPair(source, translated)
      case ".ini": return extractINIPair(source, translated)
      case ".txt": return extractTXTPair(source, translated)
      default:     return strings.TrimSpace(source), strings.TrimSpace(translated), ""
      }
  }
  \<close>
\<close>

definition extractTextPair :: "string \<Rightarrow> string \<Rightarrow> string \<Rightarrow> string \<times> string \<times> string" where
  "extractTextPair source translated ext =
     (if ext = ''.lua'' then extractLuaPair source translated
      else if ext = ''.ini'' then extractINIPair source translated
      else if ext = ''.txt'' then extractTXTPair source translated
      else (TrimSpace source, TrimSpace translated, []))"

text \<open>
  \<^verbatim>\<open>
  func matchPairs(hunk diffHunk, ext, file string) []SeedEntry {
      var entries []SeedEntry
      pairCount := len(hunk.removed)
      if len(hunk.added) < pairCount { pairCount = len(hunk.added) }
      for i := 0; i < pairCount; i++ {
          srcText, dstText, fnName := extractTextPair(hunk.removed[i], hunk.added[i], ext)
          if srcText == "" || dstText == "" || !textutil.ContainsChinese(srcText) { continue }
          entries = append(entries, SeedEntry{
              SourceText: srcText, TranslatedText: dstText, File: file, Function: fnName,
              EntityType: detectEntityType(file, fnName, srcText),
              Hash: textutil.Hash(srcText),
          })
      }
      return entries
  }
  \<close>
  \<open>orders i\<close> gives the two orders in which the call of \<open>detectEntityType\<close> for the
  \<open>i\<close>-th pair visits the maps.
\<close>

definition matchPairs_pair ::
  "(string \<Rightarrow> string) \<Rightarrow> (string \<Rightarrow> string)
     \<Rightarrow> (string \<times> string) list \<times> (string \<times> string) list
     \<Rightarrow> string \<Rightarrow> string \<Rightarrow> string \<Rightarrow> string \<Rightarrow> SeedEntry list" where
  "matchPairs_pair Sum256 mapLower order removed_i added_i ext file =
     (case extractTextPair removed_i added_i ext of
        (srcText, dstText, fnName) \<Rightarrow>
          if srcText = [] \<or> dstText = [] \<or> \<not> ContainsChinese srcText then []
          else [\<lparr>SourceText = srcText, TranslatedText = dstText, SeedFile = file,
                  Function = fnName,
                  EntityType = detectEntityType mapLower (fst order) (snd order) file fnName srcText,
                  SeedHash = Hash Sum256 srcText\<rparr>])"

definition matchPairs ::
  "(string \<Rightarrow> string) \<Rightarrow> (string \<Rightarrow> string)
     \<Rightarrow> (nat \<Rightarrow> (string \<times> string) list \<times> (string \<times> string) list)
     \<Rightarrow> diffHunk \<Rightarrow> string \<Rightarrow> string \<Rightarrow> SeedEntry list" where
  "matchPairs Sum256 mapLower orders hunk ext file =
     (let pairCount = (if length (added hunk) < length (removed hunk)
                       then length (added hunk) else length (removed hunk))
      in concat (map (\<lambda>i. matchPairs_pair Sum256 mapLower (orders i)
                             (removed hunk ! i) (added hunk ! i) ext file)
                   [0 ..< pairCount]))"

section \<open>Translator client (package \<open>translation\<close>)\<close>

text \<open>
  One HTTP exchange with the API gives either an error of the transport
  (\<open>httpClient.Do\<close> fails: the client's timeout of 120 s, a refused connection, a
  cancelled context), an error while the body is read, or a response with a status code
  and a body.
\<close>

datatype http_outcome =
    DoError
  | ReadAllError
  | Response nat string

text \<open>
  \<^verbatim>\<open>
  type anthropicResponse struct {
      Content []anthropicContent `json:"content"`   // {Type, Text}
      Usage   anthropicUsage     `json:"usage"`
      Error   *anthropicError    `json:"error,omitempty"`   // {Type, Message}
  }
  \<close>
  \<open>json.Unmarshal\<close> is a parameter of the model: it gives the decoded response, or
  \<open>None\<close> for a body that does not decode.
\<close>

record anthropicResponse =
  Content :: "(string \<times> string) list"
  Error :: "(string \<times> string) option"

datatype request_error =
    APICallError
  | ReadResponseError
  | RetryableError nat string
  | APIStatusError nat string
  | UnmarshalError
  | APIError string string
  | EmptyResponseContent

text \<open>
  \<^verbatim>\<open>
  func (oc *OpusClient) doRequest(ctx context.Context, bodyBytes []byte) (string, error) {
      ...
      resp, err := oc.httpClient.Do(req)
      if err != nil { return "", fmt.Errorf("API call: %w", err) }
      defer resp.Body.Close()
      respBody, err := io.ReadAll(resp.Body)
      if err != nil { return "", fmt.Errorf("read response: %w", err) }
      if resp.StatusCode == http.StatusTooManyRequests || resp.StatusCode >= 500 {
          return "", fmt.Errorf("retryable error (status %d): %s", resp.StatusCode, string(respBody))
      }
      if resp.StatusCode != http.StatusOK {
          return "", fmt.Errorf("API error (status %d): %s", resp.StatusCode, string(respBody))
      }
      var apiResp anthropicResponse
      if err := json.Unmarshal(respBody, &apiResp); err != nil {
          return "", fmt.Errorf("unmarshal response: %w", err)
      }
      if apiResp.Error != nil {
          return "", fmt.Errorf("API error: %s: %s", apiResp.Error.Type, apiResp.Error.Message)
      }
      if len(apiResp.Content) == 0 { return "", fmt.Errorf("empty response content") }
      var result strings.Builder
      for _, c := range apiResp.Content {
          if c.Type == "text" { result.WriteString(c.Text) }
      }
      return strings.TrimSpace(result.String()), nil
  }
  \<close>
  The request is built from a constant URL and cannot fail. The argument \<open>exchange\<close> is
  what the HTTP exchange of this call gives.
\<close>

definition doRequest ::
  "(string \<Rightarrow> anthropicResponse option) \<Rightarrow> http_outcome \<Rightarrow> request_error + string" where
  "doRequest Unmarshal exchange =
     (case exchange of
        DoError \<Rightarrow> Inl APICallError
      | ReadAllError \<Rightarrow> Inl ReadResponseError
      | Response StatusCode respBody \<Rightarrow>
          if StatusCode = 429 \<or> StatusCode \<ge> 500 then Inl (RetryableError StatusCode respBody)
          else if StatusCode \<noteq> 200 then Inl (APIStatusError StatusCode respBody)
          else case Unmarshal respBody of
                 None \<Rightarrow> Inl UnmarshalError
               | Some apiResp \<Rightarrow>
                   (case Error apiResp of
                      Some (type, message) \<Rightarrow> Inl (APIError type message)
                    | None \<Rightarrow>
                        if length (Content apiResp) = 0 then Inl EmptyResponseContent
                        else Inr (TrimSpace
                               (concat (map snd
                                  (filter (\<lambda>c. fst c = ''text'') (Content apiResp)))))))"

text \<open>
  \<^verbatim>\<open>
  func (oc *OpusClient) Translate(ctx context.Context, systemPrompt, userPrompt string) (string, error) {
      ...
      var lastErr error
      maxRetries := 3
      for attempt := 0; attempt < maxRetries; attempt++ {
          if attempt > 0 {
              backoff := time.Duration(attempt*2) * time.Second
              log.Warn()...Msg("Retrying translation")
              select {
              case <-ctx.Done(): return "", ctx.Err()
              case <-time.After(backoff):
              }
          }
          result, err := oc.doRequest(ctx, bodyBytes)
          if err == nil { return result, nil }
          lastErr = err
          // Don't retry on context cancellation.
          if ctx.Err() != nil { return "", ctx.Err() }
      }
      return "", fmt.Errorf("translation failed after %d retries: %w", maxRetries, lastErr)
  }
  \<close>
  Before the loop the request is marshalled to JSON, which for its string and integer
  fields does not fail. The surroundings of a call are the record \<open>translate_env\<close>: what the HTTP exchange of
  each attempt gives, whether the context is done before the backoff timer of an attempt
  fires, and whether the context has an error after an attempt failed. The model returns
  the result together with the trace of what the call did: the backoff waits that ran
  to their end, in seconds, and the requests.
\<close>

record translate_env =
  exchange :: "nat \<Rightarrow> http_outcome"
  done_during_backoff :: "nat \<Rightarrow> bool"
  err_after_attempt :: "nat \<Rightarrow> bool"

datatype translate_event = Backoff nat | Request

datatype translate_error =
    ContextError
  | TranslationFailed nat "request_error option"

function Translate_loop ::
  "(string \<Rightarrow> anthropicResponse option) \<Rightarrow> translate_env \<Rightarrow> nat \<Rightarrow> nat
     \<Rightarrow> request_error option \<Rightarrow> translate_event list
     \<Rightarrow> (translate_error + string) \<times> translate_event list" where
  "Translate_loop Unmarshal env maxRetries attempt lastErr trace =
     (if attempt < maxRetries then
        if attempt > 0 \<and> done_during_backoff env attempt then (Inl ContextError, trace)
        else
          let trace' = (if attempt > 0 then trace @ [Backoff (attempt * 2)] else trace) @ [Request]
          in case doRequest Unmarshal (exchange env attempt) of
               Inr result \<Rightarrow> (Inr result, trace')
             | Inl err \<Rightarrow>
                 if err_after_attempt env attempt then (Inl ContextError, trace')
                 else Translate_loop Unmarshal env maxRetries (attempt + 1) (Some err) trace'
      else (Inl (TranslationFailed maxRetries lastErr), trace))"
  by pat_completeness auto
termination
  by (relation "measure (\<lambda>(Unmarshal, env, maxRetries, attempt, lastErr, trace).
        maxRetries - attempt)") auto

declare Translate_loop.simps [simp del]

definition Translate ::
  "(string \<Rightarrow> anthropicResponse option) \<Rightarrow> translate_env
     \<Rightarrow> (translate_error + string) \<times> translate_event list" where
  "Translate Unmarshal env = Translate_loop Unmarshal env 3 0 None []"

section \<open>Properties of \<open>Batch\<close>\<close>

lemma Batch_loop_chunks:
  assumes "0 < bs"
  shows "\<exists>cs. Batch_loop items bs i acc = Some (acc @ cs)
           \<and> concat cs = drop i items
           \<and> list_all (\<lambda>c. 0 < length c \<and> length c \<le> bs) cs
           \<and> list_all (\<lambda>c. length c = bs) (butlast cs)
           \<and> (\<forall>k<length cs. cs ! k = take bs (drop (i + k * bs) items))"
proof (induction "length items - i" arbitrary: i acc rule: less_induct)
  case less
  show ?case
  proof (cases "i < length items")
    case False
    then have "Batch_loop items bs i acc = Some (acc @ [])"
      by (subst Batch_loop.simps) simp
    moreover from False have "drop i items = []" by simp
    ultimately show ?thesis by fastforce
  next
    case True
    define e where "e = (if i + bs > length items then length items else i + bs)"
    define c where "c = take (e - i) (drop i items)"
    have step: "Batch_loop items bs i acc = Batch_loop items bs (i + bs) (acc @ [c])"
      by (subst Batch_loop.simps) (simp add: True e_def c_def Let_def)
    have "length items - (i + bs) < length items - i"
      using True assms by arith
    from less[OF this, of "acc @ [c]"] obtain cs where
      run: "Batch_loop items bs (i + bs) (acc @ [c]) = Some ((acc @ [c]) @ cs)"
      and cat: "concat cs = drop (i + bs) items"
      and len: "list_all (\<lambda>c. 0 < length c \<and> length c \<le> bs) cs"
      and full: "list_all (\<lambda>c. length c = bs) (butlast cs)"
      and nth: "\<forall>k<length cs. cs ! k = take bs (drop (i + bs + k * bs) items)"
      by blast
    have clen: "length c = min bs (length items - i)"
      using True by (auto simp: c_def e_def)
    have ccat: "c @ drop (i + bs) items = drop i items"
    proof (cases "i + bs > length items")
      case True
      then show ?thesis by (simp add: c_def e_def)
    next
      case False
      then have "c = take bs (drop i items)" by (simp add: c_def e_def)
      moreover have "take bs (drop i items) @ drop bs (drop i items) = drop i items"
        by (rule append_take_drop_id)
      ultimately show ?thesis by (simp add: add.commute)
    qed
    have last_full: "cs \<noteq> [] \<Longrightarrow> length c = bs"
    proof -
      assume ne: "cs \<noteq> []"
      have "concat cs \<noteq> []"
        using ne len by (cases cs) auto
      then have "i + bs < length items" using cat by simp
      then show "length c = bs" using clen by simp
    qed
    have "Batch_loop items bs i acc = Some (acc @ (c # cs))"
      using step run by simp
    moreover have "concat (c # cs) = drop i items"
      using cat ccat by simp
    moreover have "0 < length c" "length c \<le> bs"
      using clen True assms by simp_all
    then have "list_all (\<lambda>c. 0 < length c \<and> length c \<le> bs) (c # cs)"
      using len by simp
    moreover have "list_all (\<lambda>c. length c = bs) (butlast (c # cs))"
      using full last_full by simp
    moreover have "\<forall>k<length (c # cs). (c # cs) ! k = take bs (drop (i + k * bs) items)"
    proof (intro allI impI)
      fix k assume k: "k < length (c # cs)"
      show "(c # cs) ! k = take bs (drop (i + k * bs) items)"
      proof (cases k)
        case 0
        have "c = take (min bs (length items - i)) (drop i items)"
          using True by (auto simp: c_def e_def)
        also have "\<dots> = take bs (drop i items)"
          by (simp add: min_def)
        finally show ?thesis using 0 by simp
      next
        case (Suc k')
        then have "k' < length cs" using k by simp
        with nth have "cs ! k' = take bs (drop (i + bs + k' * bs) items)" by blast
        then show ?thesis using Suc by (simp add: add.assoc)
      qed
    qed
    ultimately show ?thesis by blast
  qed
qed

text \<open>
  C9. For every list \<open>items\<close> and every \<open>size \<ge> 1\<close>, \<open>Batch items size\<close> returns, and what it
  returns are consecutive non-overlapping chunks: their concatenation in order is
  \<open>items\<close>, the \<open>k\<close>-th chunk is the slice of \<open>items\<close> that starts at \<open>k * size\<close>,
  every chunk has at most \<open>size\<close> elements and every chunk but the last has exactly
  \<open>size\<close>.
\<close>

theorem Batch_chunks:
  assumes "1 \<le> batchSize"
  shows "\<exists>batches. Batch items batchSize = Some batches
           \<and> concat batches = items
           \<and> (\<forall>k<length batches. batches ! k = take (nat batchSize) (drop (k * nat batchSize) items))
           \<and> (\<forall>c\<in>set batches. length c \<le> nat batchSize)
           \<and> (\<forall>c\<in>set (butlast batches). length c = nat batchSize)"
proof -
  have pos: "0 < nat batchSize" using assms by simp
  from Batch_loop_chunks[OF pos, of items 0 "[]"] obtain cs where
    "Batch_loop items (nat batchSize) 0 [] = Some cs"
    "concat cs = items"
    "list_all (\<lambda>c. 0 < length c \<and> length c \<le> nat batchSize) cs"
    "list_all (\<lambda>c. length c = nat batchSize) (butlast cs)"
    "\<forall>k<length cs. cs ! k = take (nat batchSize) (drop (k * nat batchSize) items)"
    by auto
  moreover have "Batch items batchSize = Batch_loop items (nat batchSize) 0 []"
    using assms by (simp add: Batch_def)
  ultimately show ?thesis
    by (auto simp: list_all_iff)
qed

theorem Batch_chunks_witness:
  "(1::int) \<le> 2
   \<and> Batch [10, 20, 30, 40, 50 :: nat] 2 = Some [[10, 20], [30, 40], [50]]
   \<and> (\<exists>batches. Batch [10, 20, 30, 40, 50 :: nat] 2 = Some batches
           \<and> concat batches = [10, 20, 30, 40, 50]
           \<and> (\<forall>k<length batches. batches ! k = take (nat 2) (drop (k * nat 2) [10, 20, 30, 40, 50]))
           \<and> (\<forall>c\<in>set batches. length c \<le> nat 2)
           \<and> (\<forall>c\<in>set (butlast batches). length c = nat 2))"
proof -
  have h: "(1::int) \<le> 2" by simp
  have "Batch [10, 20, 30, 40, 50 :: nat] 2 = Some [[10, 20], [30, 40], [50]]"
    by (simp add: Batch_def Batch_loop.simps)
  then show ?thesis using h Batch_chunks[OF h, of "[10, 20, 30, 40, 50 :: nat]"] by simp
qed

section \<open>Properties of the translation cache\<close>

lemma Set_memory:
  "memory (snd (Set Sum256 db_ok s t c)) = (memory c)(Hash Sum256 s \<mapsto> t)"
  by (simp add: Set_def UpsertCachedTranslation_def Let_def split: option.splits prod.splits)

lemma Get_memory_hit:
  "memory c (Hash Sum256 s) = Some v \<Longrightarrow> Get Sum256 db_ok s c = ((v, True), c)"
  by (simp add: Get_def)

lemma Get_memory_miss:
  "memory c (Hash Sum256 s) = None \<Longrightarrow>
   Get Sum256 db_ok s c =
     (case (if db_ok then translation_cache c (Hash Sum256 s) else None) of
        None \<Rightarrow>
          (('''', False),
           c\<lparr>statements := statements c @ [GetCachedTranslationStmt (Hash Sum256 s)]\<rparr>)
      | Some (source, translated) \<Rightarrow>
          ((translated, True),
           c\<lparr>statements := statements c @ [GetCachedTranslationStmt (Hash Sum256 s)],
             memory := (memory c)(Hash Sum256 s \<mapsto> translated)\<rparr>))"
  by (simp add: Get_def GetCachedTranslation_def Let_def split: option.splits prod.splits)

text \<open>
  C8. The cache reads its own writes: after a \<open>Set\<close> of \<open>s\<close> to \<open>t\<close> that returned no
  error, \<open>Get\<close> of \<open>s\<close> returns \<open>(t, true)\<close> and leaves the cache as it is, whatever
  the durable tier does then. \<open>Get\<close> looks in memory first: on a hit it returns the
  value and sends nothing to the durable tier. Only on a miss it queries the durable
  tier; when that answers with a row for the hash, \<open>Get\<close> returns its translation and
  stores it in memory; when there is no row or the query fails, \<open>Get\<close> returns
  \<open>("", false)\<close> and memory stays as it was.
\<close>

theorem Get_after_Set:
  assumes "Set Sum256 db_ok s t c = (None, c')"
  shows "Get Sum256 db_ok' s c' = ((t, True), c')
       \<and> Get Sum256 db_ok' s0 c0 =
           (case memory c0 (Hash Sum256 s0) of
              Some v \<Rightarrow> ((v, True), c0)
            | None \<Rightarrow>
                (case (if db_ok' then translation_cache c0 (Hash Sum256 s0) else None) of
                   None \<Rightarrow>
                     (('''', False),
                      c0\<lparr>statements :=
                           statements c0 @ [GetCachedTranslationStmt (Hash Sum256 s0)]\<rparr>)
                 | Some (source, translated) \<Rightarrow>
                     ((translated, True),
                      c0\<lparr>statements :=
                           statements c0 @ [GetCachedTranslationStmt (Hash Sum256 s0)],
                         memory := (memory c0)(Hash Sum256 s0 \<mapsto> translated)\<rparr>)))"
proof
  have "memory c' = (memory c)(Hash Sum256 s \<mapsto> t)"
    using Set_memory[of Sum256 db_ok s t c] assms by simp
  then show "Get Sum256 db_ok' s c' = ((t, True), c')"
    by (simp add: Get_memory_hit)
next
  show "Get Sum256 db_ok' s0 c0 =
           (case memory c0 (Hash Sum256 s0) of
              Some v \<Rightarrow> ((v, True), c0)
            | None \<Rightarrow>
                (case (if db_ok' then translation_cache c0 (Hash Sum256 s0) else None) of
                   None \<Rightarrow>
                     (('''', False),
                      c0\<lparr>statements :=
                           statements c0 @ [GetCachedTranslationStmt (Hash Sum256 s0)]\<rparr>)
                 | Some (source, translated) \<Rightarrow>
                     ((translated, True),
                      c0\<lparr>statements :=
                           statements c0 @ [GetCachedTranslationStmt (Hash Sum256 s0)],
                         memory := (memory c0)(Hash Sum256 s0 \<mapsto> translated)\<rparr>)))"
  proof (cases "memory c0 (Hash Sum256 s0)")
    case None
    then show ?thesis by (simp add: Get_memory_miss)
  next
    case (Some v)
    then show ?thesis by (simp add: Get_memory_hit)
  qed
qed

theorem Get_after_Set_witness:
  "Set (\<lambda>x. x) True ''s'' ''t''
       \<lparr>memory = Map.empty, translation_cache = Map.empty, statements = []\<rparr>
     = (None, \<lparr>memory = [''73'' \<mapsto> ''t''],
               translation_cache = [''73'' \<mapsto> (''s'', ''t'')],
               statements = [UpsertCachedTranslationStmt ''73'']\<rparr>)
   \<and> Get (\<lambda>x. x) False ''s''
         \<lparr>memory = [''73'' \<mapsto> ''t''],
          translation_cache = [''73'' \<mapsto> (''s'', ''t'')],
          statements = [UpsertCachedTranslationStmt ''73'']\<rparr>
       = ((''t'', True),
          \<lparr>memory = [''73'' \<mapsto> ''t''],
           translation_cache = [''73'' \<mapsto> (''s'', ''t'')],
           statements = [UpsertCachedTranslationStmt ''73'']\<rparr>)"
proof -
  have h: "Set (\<lambda>x. x) True ''s'' ''t''
       \<lparr>memory = Map.empty, translation_cache = Map.empty, statements = []\<rparr>
     = (None, \<lparr>memory = [''73'' \<mapsto> ''t''],
               translation_cache = [''73'' \<mapsto> (''s'', ''t'')],
               statements = [UpsertCachedTranslationStmt ''73'']\<rparr>)"
    by (simp add: Set_def UpsertCachedTranslation_def Hash_def EncodeToString_def
        hextable_def Let_def)
  have g: "Get (\<lambda>x. x) False ''s''
         \<lparr>memory = [''73'' \<mapsto> ''t''],
          translation_cache = [''73'' \<mapsto> (''s'', ''t'')],
          statements = [UpsertCachedTranslationStmt ''73'']\<rparr>
       = ((''t'', True),
          \<lparr>memory = [''73'' \<mapsto> ''t''],
           translation_cache = [''73'' \<mapsto> (''s'', ''t'')],
           statements = [UpsertCachedTranslationStmt ''73'']\<rparr>)"
    by (rule conjunct1[OF Get_after_Set[OF h, of False]])
  from h g show ?thesis by (rule conjI)
qed

text \<open>
  C10. When the write to the durable tier fails, \<open>Set\<close> returns an error, but the
  memory tier already holds the new translation: \<open>Get\<close> of the same source text then
  returns the new value with \<open>true\<close>, without asking the durable tier, and the durable
  tier still holds what it held before.
\<close>

theorem Set_failure_leaves_memory_updated:
  "fst (Set Sum256 False s t c) = Some (CacheSetError ErrConnection)
   \<and> translation_cache (snd (Set Sum256 False s t c)) = translation_cache c
   \<and> Get Sum256 db_ok' s (snd (Set Sum256 False s t c))
       = ((t, True), snd (Set Sum256 False s t c))"
proof -
  have "memory (snd (Set Sum256 False s t c)) (Hash Sum256 s) = Some t"
    by (simp add: Set_memory)
  then have "Get Sum256 db_ok' s (snd (Set Sum256 False s t c))
       = ((t, True), snd (Set Sum256 False s t c))"
    by (rule Get_memory_hit)
  then show ?thesis
    by (simp add: Set_def UpsertCachedTranslation_def Let_def)
qed

section \<open>Properties of the interpolation protector\<close>

lemma Index_None_Cons:
  "Index (c # cs) substr = None \<Longrightarrow> take (length substr) (c # cs) \<noteq> substr \<and> Index cs substr = None"
  by (auto split: if_splits)

lemma var_prefix_length: "length ''{{var_'' = 6"
  by simp

lemma short_list_cases:
  assumes "length xs < 6" "xs \<noteq> []"
  obtains a where "xs = [a]"
  | a b where "xs = [a, b]"
  | a b c where "xs = [a, b, c]"
  | a b c d where "xs = [a, b, c, d]"
  | a b c d e where "xs = [a, b, c, d, e]"
proof -
  from assms(2) have "0 < length xs" by simp
  with assms(1) consider "length xs = Suc 0" | "length xs = Suc (Suc 0)"
    | "length xs = Suc (Suc (Suc 0))" | "length xs = Suc (Suc (Suc (Suc 0)))"
    | "length xs = Suc (Suc (Suc (Suc (Suc 0))))"
    by arith
  then show ?thesis
    using that by cases (auto simp: length_Suc_conv)
qed

lemma no_straddle:
  assumes "Index xs ''{{var_'' = None" "xs \<noteq> []"
  shows "take 6 (xs @ ''{{var_'' @ w) \<noteq> ''{{var_''"
proof (cases "length xs < 6")
  case False
  from assms obtain c cs where xs: "xs = c # cs" by (cases xs) auto
  with assms(1) have "take (length ''{{var_'') xs \<noteq> ''{{var_''"
    using Index_None_Cons by blast
  then have "take 6 xs \<noteq> ''{{var_''" unfolding var_prefix_length .
  moreover from False have "take 6 (xs @ ''{{var_'' @ w) = take 6 xs" by simp
  ultimately show ?thesis by metis
next
  case True
  from True assms(2) show ?thesis
    by (cases xs rule: short_list_cases) auto
qed

lemma Index_placeholder:
  assumes "Index u ''{{var_'' = None"
  shows "Index (u @ (''{{var_'' @ d) @ rest) (''{{var_'' @ d) = Some (length u)"
  using assms
proof (induction u)
  case Nil
  show ?case by simp
next
  case (Cons c cs)
  from Cons.prems have tail: "Index cs ''{{var_'' = None"
    using Index_None_Cons by blast
  define t where "t = cs @ (''{{var_'' @ d) @ rest"
  define s where "s = c # t"
  have s_eq: "(c # cs) @ (''{{var_'' @ d) @ rest = s"
    by (simp add: s_def t_def)
  have s_eq': "(c # cs) @ ''{{var_'' @ (d @ rest) = s"
    by (simp add: s_def t_def)
  have len: "length (''{{var_'' @ d) = 6 + length d"
    by (simp only: length_append var_prefix_length)
  have neq: "take (length (''{{var_'' @ d)) s \<noteq> ''{{var_'' @ d"
  proof
    assume eq: "take (length (''{{var_'' @ d)) s = ''{{var_'' @ d"
    have "take 6 s = take 6 (take (6 + length d) s)"
      by (simp only: take_take) simp
    also have "\<dots> = take 6 (''{{var_'' @ d)"
      using eq by (simp only: len)
    also have "\<dots> = ''{{var_''"
      by simp
    finally have "take 6 ((c # cs) @ ''{{var_'' @ (d @ rest)) = ''{{var_''"
      by (simp only: s_eq')
    with no_straddle[OF Cons.prems, of "d @ rest"] show False by simp
  qed
  have "Index s (''{{var_'' @ d) =
      (if take (length (''{{var_'' @ d)) s = ''{{var_'' @ d then Some 0
       else map_option Suc (Index t (''{{var_'' @ d)))"
    unfolding s_def by (rule Index.simps(2))
  with neq have "Index s (''{{var_'' @ d) = map_option Suc (Index t (''{{var_'' @ d))"
    by (simp only: if_False)
  also have "Index t (''{{var_'' @ d) = Some (length cs)"
    unfolding t_def by (rule Cons.IH[OF tail])
  finally show ?case
    by (simp only: s_eq) simp
qed


lemma Index_None_take:
  "Index s substr = None \<Longrightarrow> Index (take k s) substr = None"
proof (induction s arbitrary: k)
  case Nil
  then show ?case by simp
next
  case (Cons c cs)
  from Cons.prems have head: "take (length substr) (c # cs) \<noteq> substr"
    and tail: "Index cs substr = None"
    using Index_None_Cons by blast+
  show ?case
  proof (cases k)
    case 0
    from head have "substr \<noteq> []" by auto
    with 0 show ?thesis by simp
  next
    case (Suc k')
    have "take (length substr) (c # take k' cs) \<noteq> substr"
    proof
      assume eq: "take (length substr) (c # take k' cs) = substr"
      have "length (take (length substr) (c # take k' cs)) \<le> length (c # take k' cs)"
        by simp
      then have "length substr \<le> length (c # take k' cs)"
        by (simp only: eq)
      then have le: "length substr \<le> Suc k'"
        by simp
      have "take (length substr) (take (Suc k') (c # cs)) = take (length substr) (c # cs)"
        using le by (simp only: take_take min.absorb1)
      then have "take (length substr) (c # take k' cs) = take (length substr) (c # cs)"
        by simp
      with eq head show False by simp
    qed
    then have "Index (c # take k' cs) substr = map_option Suc (Index (take k' cs) substr)"
      by simp
    with Cons.IH[OF tail, of k'] Suc show ?thesis by simp
  qed
qed

lemma splice_middle:
  "take (length u) (u @ x @ rest) @ orig @ drop (length u + length x) (u @ x @ rest)
     = u @ orig @ rest"
  by simp

lemma Replace1_placeholder:
  assumes "Index u ''{{var_'' = None"
  shows "Replace1 (u @ (''{{var_'' @ d) @ rest) (''{{var_'' @ d) orig = u @ orig @ rest"
proof (cases "''{{var_'' @ d = orig")
  case True
  then show ?thesis by (simp add: Replace1_def)
next
  case False
  have "Replace1 (u @ (''{{var_'' @ d) @ rest) (''{{var_'' @ d) orig
      = take (length u) (u @ (''{{var_'' @ d) @ rest) @ orig
          @ drop (length u + length (''{{var_'' @ d)) (u @ (''{{var_'' @ d) @ rest)"
    using False by (simp only: Replace1_def if_False Index_placeholder[OF assms] option.case)
  also have "\<dots> = u @ orig @ rest"
    by (rule splice_middle)
  finally show ?thesis .
qed

lemma find_all_bounds:
  "(i, j) \<in> set (find_all re s pos) \<Longrightarrow> pos \<le> i \<and> i \<le> j \<and> j \<le> pos + length s"
proof (induction re s pos rule: find_all.induct)
  case (1 re s pos)
  show ?case
  proof (cases "leftmost re s pos")
    case None
    with "1.prems" show ?thesis by (simp add: find_all.simps[of re s pos])
  next
    case (Some a)
    obtain i0 j0 caps where a: "a = (i0, j0, caps)" by (cases a) auto
    define nxt where "nxt = (if i0 < j0 then j0 else j0 + 1)"
    from Some a have lm: "leftmost re s pos = Some (i0, j0, caps)" by simp
    from leftmost_bounds[OF lm] have b0: "pos \<le> i0" "i0 \<le> j0" "j0 \<le> pos + length s"
      by simp_all
    from "1.prems" lm consider "(i, j) = (i0, j0)"
      | "\<not> length s < nxt - pos" "(i, j) \<in> set (find_all re (drop (nxt - pos) s) nxt)"
      by (auto simp: find_all.simps[of re s pos] Let_def nxt_def split: if_splits)
    then show ?thesis
    proof cases
      case 1
      with b0 show ?thesis by simp
    next
      case 2
      have "nxt \<le> i \<and> i \<le> j \<and> j \<le> nxt + length (drop (nxt - pos) s)"
        by (rule "1.IH"[OF Some a[symmetric] refl nxt_def 2(1) 2(2)])
      moreover have "pos \<le> nxt" using b0 by (simp add: nxt_def)
      ultimately show ?thesis using 2(1) by simp
    qed
  qed
qed

lemma Protect_allMatches_bounds:
  assumes "m \<in> set (Protect_allMatches text)"
  shows "start m \<le> end' m \<and> end' m \<le> length text
         \<and> value' m = take (end' m - start m) (drop (start m) text)"
proof -
  from assms obtain p loc where "loc \<in> set (FindAllStringIndex p text)"
    and m: "m = \<lparr>start = fst loc, end' = snd loc,
                 value' = take (snd loc - fst loc) (drop (fst loc) text)\<rparr>"
    by (auto simp: Protect_allMatches_def)
  then have "(fst loc, snd loc) \<in> set (find_all p text 0)"
    by (simp add: FindAllStringIndex_def)
  from find_all_bounds[OF this] m show ?thesis by simp
qed

lemma set_sortVarMatches_insert:
  "set (sortVarMatches_insert key below) = insert key (set below)"
  by (induction below) auto

lemma set_fold_sortVarMatches_insert:
  "set (fold sortVarMatches_insert ms acc) = set ms \<union> set acc"
  by (induction ms arbitrary: acc) (auto simp: set_sortVarMatches_insert)

lemma set_sortVarMatches: "set (sortVarMatches ms) = set ms"
  by (simp add: sortVarMatches_def set_fold_sortVarMatches_insert)

lemma placeholder_of_shape: "placeholder_of n = ''{{var_'' @ (decimal n @ ''}}'')"
  by (simp add: placeholder_of_def)

lemma Protect_replace_Restore:
  assumes wf: "\<forall>m\<in>set ms. start m \<le> end' m \<and> end' m \<le> length text
                 \<and> value' m = take (end' m - start m) (drop (start m) text)"
    and free: "Index text ''{{var_'' = None"
  shows "take (nat lastEnd) (fst (Protect_replace (Protect_filter ms lastEnd) i text))
           = take (nat lastEnd) text
         \<and> Restore (fst (Protect_replace (Protect_filter ms lastEnd) i text))
                    (snd (Protect_replace (Protect_filter ms lastEnd) i text)) = text"
  using wf
proof (induction ms arbitrary: lastEnd i)
  case Nil
  show ?case by (simp add: Restore_def)
next
  case (Cons m ms)
  from Cons.prems have wf_ms: "\<forall>m\<in>set ms. start m \<le> end' m \<and> end' m \<le> length text
                 \<and> value' m = take (end' m - start m) (drop (start m) text)"
    by simp
  show ?case
  proof (cases "int (start m) \<ge> lastEnd")
    case False
    then have "Protect_filter (m # ms) lastEnd = Protect_filter ms lastEnd" by simp
    with Cons.IH[OF wf_ms, of lastEnd i] show ?thesis by (simp only:)
  next
    case True
    define s e where "s = start m" and "e = end' m"
    from Cons.prems have se: "s \<le> e" and el: "e \<le> length text"
      and val: "value' m = take (e - s) (drop s text)"
      by (simp_all add: s_def e_def)
    define F where "F = Protect_filter ms (int e)"
    define r' where "r' = fst (Protect_replace F (Suc i) text)"
    define maps' where "maps' = snd (Protect_replace F (Suc i) text)"
    have pr: "Protect_replace F (Suc i) text = (r', maps')"
      by (simp add: r'_def maps'_def)
    from Cons.IH[OF wf_ms, of "int e" "Suc i"]
    have ih1: "take e r' = take e text" and ih2: "Restore r' maps' = text"
      by (simp_all add: F_def r'_def maps'_def)
    define d where "d = decimal (Suc i) @ ''}}''"
    define u where "u = take s text"
    define rest where "rest = drop e r'"
    have filt: "Protect_filter (m # ms) lastEnd = m # F"
      using True by (simp add: F_def e_def)
    have res: "Protect_replace (m # F) i text
        = (take s r' @ (''{{var_'' @ d) @ rest,
           \<lparr>Original = value' m, Placeholder = ''{{var_'' @ d, MappingIndex = int i + 1\<rparr> # maps')"
      by (simp add: pr Let_def placeholder_of_shape d_def rest_def s_def e_def)
    have "take s r' = take s (take e r')"
      using se by (simp add: min_def)
    also have "\<dots> = take s (take e text)" by (simp only: ih1)
    also have "\<dots> = u" using se by (simp add: u_def min_def)
    finally have pre: "take s r' = u" .
    have ufree: "Index u ''{{var_'' = None"
      unfolding u_def by (rule Index_None_take[OF free])
    have ulen: "length u = s" using se el by (simp add: u_def)
    have "u @ value' m = take s text @ take (e - s) (drop s text)"
      by (simp add: u_def val)
    also have "\<dots> = take (s + (e - s)) text"
      by (simp only: take_add)
    also have "\<dots> = take e text" using se by simp
    finally have uval: "u @ value' m = take e r'" by (simp only: ih1)
    have "Replace1 (u @ (''{{var_'' @ d) @ rest) (''{{var_'' @ d) (value' m) = u @ value' m @ rest"
      by (rule Replace1_placeholder[OF ufree])
    also have "\<dots> = (u @ value' m) @ rest" by simp
    also have "\<dots> = r'" by (simp only: uval rest_def append_take_drop_id)
    finally have rep: "Replace1 (u @ (''{{var_'' @ d) @ rest) (''{{var_'' @ d) (value' m) = r'" .
    have restore: "Restore (u @ (''{{var_'' @ d) @ rest)
        (\<lparr>Original = value' m, Placeholder = ''{{var_'' @ d, MappingIndex = int i + 1\<rparr> # maps')
        = text"
      using rep ih2 by (simp add: Restore_def)
    have "nat lastEnd \<le> s" using True by (simp add: s_def)
    then have "take (nat lastEnd) (u @ (''{{var_'' @ d) @ rest) = take (nat lastEnd) u"
      using ulen by simp
    also have "\<dots> = take (nat lastEnd) text"
      using \<open>nat lastEnd \<le> s\<close> by (simp add: u_def min_def)
    finally have prefix: "take (nat lastEnd) (u @ (''{{var_'' @ d) @ rest) = take (nat lastEnd) text" .
    show ?thesis
      unfolding filt res pre fst_conv snd_conv
      using prefix restore by (rule conjI)
  qed
qed

text \<open>
  C1. For every text that does not contain \<open>{{var_\<close>, restoring the safe string that
  \<open>Protect\<close> returns, with the mappings that \<open>Protect\<close> returns, gives the text back.
\<close>

theorem Protect_Restore_roundtrip:
  assumes "\<not> Contains text ''{{var_''"
  shows "Restore (fst (Protect text)) (snd (Protect text)) = text"
proof -
  from assms have free: "Index text ''{{var_'' = None"
    by (simp add: Contains_def split: option.splits)
  show ?thesis
  proof (cases "length (Protect_allMatches text) = 0")
    case True
    then show ?thesis by (simp add: Protect_def Restore_def)
  next
    case False
    have wf: "\<forall>m\<in>set (sortVarMatches (Protect_allMatches text)).
        start m \<le> end' m \<and> end' m \<le> length text
        \<and> value' m = take (end' m - start m) (drop (start m) text)"
      by (simp only: set_sortVarMatches) (blast dest: Protect_allMatches_bounds)
    from Protect_replace_Restore[OF wf free, of "- 1" 0] False show ?thesis
      by (simp add: Protect_def Let_def)
  qed
qed

theorem Protect_Restore_roundtrip_witness:
  "\<not> Contains ([CHR 0xE8, CHR 0x8E, CHR 0xB7, CHR 0xE5, CHR 0xBE, CHR 0x97] @ ''%d''
        @ [CHR 0xE9, CHR 0x87, CHR 0x91, CHR 0xE5, CHR 0xB8, CHR 0x81] @ '' ${name} {0} 100%%'') ''{{var_''
   \<and> Protect ([CHR 0xE8, CHR 0x8E, CHR 0xB7, CHR 0xE5, CHR 0xBE, CHR 0x97] @ ''%d''
        @ [CHR 0xE9, CHR 0x87, CHR 0x91, CHR 0xE5, CHR 0xB8, CHR 0x81] @ '' ${name} {0} 100%%'')
       = (([CHR 0xE8, CHR 0x8E, CHR 0xB7, CHR 0xE5, CHR 0xBE, CHR 0x97] @ ''{{var_1}}''
        @ [CHR 0xE9, CHR 0x87, CHR 0x91, CHR 0xE5, CHR 0xB8, CHR 0x81] @ '' {{var_2}} {{var_3}} 100{{var_4}}''),
          [\<lparr>Original = ''%d'', Placeholder = ''{{var_1}}'', MappingIndex = 1\<rparr>,
           \<lparr>Original = ''${name}'', Placeholder = ''{{var_2}}'', MappingIndex = 2\<rparr>,
           \<lparr>Original = ''{0}'', Placeholder = ''{{var_3}}'', MappingIndex = 3\<rparr>,
           \<lparr>Original = ''%%'', Placeholder = ''{{var_4}}'', MappingIndex = 4\<rparr>])
   \<and> Restore (fst (Protect ([CHR 0xE8, CHR 0x8E, CHR 0xB7, CHR 0xE5, CHR 0xBE, CHR 0x97] @ ''%d''
        @ [CHR 0xE9, CHR 0x87, CHR 0x91, CHR 0xE5, CHR 0xB8, CHR 0x81] @ '' ${name} {0} 100%%''))) (snd (Protect ([CHR 0xE8, CHR 0x8E, CHR 0xB7, CHR 0xE5, CHR 0xBE, CHR 0x97] @ ''%d''
        @ [CHR 0xE9, CHR 0x87, CHR 0x91, CHR 0xE5, CHR 0xB8, CHR 0x81] @ '' ${name} {0} 100%%''))) = ([CHR 0xE8, CHR 0x8E, CHR 0xB7, CHR 0xE5, CHR 0xBE, CHR 0x97] @ ''%d''
        @ [CHR 0xE9, CHR 0x87, CHR 0x91, CHR 0xE5, CHR 0xB8, CHR 0x81] @ '' ${name} {0} 100%%'')"
  (is "?free \<and> ?val \<and> ?concl")
proof -
  have free: ?free
    by code_simp
  have val: ?val
    by code_simp
  have concl: ?concl
    by (rule Protect_Restore_roundtrip[OF free])
  show ?thesis
    by (rule conjI[OF free conjI[OF val concl]])
qed

section \<open>Properties of the parsers\<close>

subsection \<open>Reconstruction without translations\<close>

lemma fold_unchanged: "(\<And>x. f x s = s) \<Longrightarrow> fold f xs s = s"
  by (induction xs) simp_all

lemma reconstructTSV_step_empty: "reconstructTSV_step Map.empty et lines = lines"
  by (simp add: reconstructTSV_step_def Let_def)

lemma reconstructPlainText_step_empty: "reconstructPlainText_step Map.empty et lines = lines"
  by (simp add: reconstructPlainText_step_def Let_def)

lemma INIParser_step_empty: "INIParser_step Map.empty et lines = lines"
  by (simp add: INIParser_step_def Let_def)

lemma LuaParser_replace_line_empty: "LuaParser_replace_line Map.empty entry lines = lines"
proof -
  have "fold (LuaParser_replace_text Map.empty) texts line = line" for texts line
    by (rule fold_unchanged) (simp add: LuaParser_replace_text_def)
  then show ?thesis
    by (simp add: LuaParser_replace_line_def Let_def)
qed

text \<open>
  C2. For each of the three parsers and every parse result (so in particular every one
  that \<open>Parse\<close> returns for a file), \<open>Reconstruct\<close> with the empty translation map
  returns the raw lines joined by \<open>"\n"\<close>, followed by one \<open>"\n"\<close>.
\<close>

theorem Reconstruct_without_translations:
  "TXTParser_Reconstruct result Map.empty = Join (RawLines result) ''\<newline>'' @ ''\<newline>''
   \<and> LuaParser_Reconstruct result Map.empty
       = Join (RawLines result) ''\<newline>'' @ ''\<newline>''
   \<and> INIParser_Reconstruct result Map.empty
       = Join (RawLines result) ''\<newline>'' @ ''\<newline>''"
proof (intro conjI)
  have a: "fold (reconstructTSV_step Map.empty) ets lines = lines" for ets lines
    by (rule fold_unchanged) (rule reconstructTSV_step_empty)
  have b: "fold (reconstructPlainText_step Map.empty) ets lines = lines" for ets lines
    by (rule fold_unchanged) (rule reconstructPlainText_step_empty)
  show "TXTParser_Reconstruct result Map.empty
      = Join (RawLines result) ''\<newline>'' @ ''\<newline>''"
    by (simp add: TXTParser_Reconstruct_def reconstructTSV_def reconstructPlainText_def
        Let_def a b)
next
  have a: "fold (LuaParser_replace_line Map.empty) m lines = lines" for m lines
    by (rule fold_unchanged) (rule LuaParser_replace_line_empty)
  show "LuaParser_Reconstruct result Map.empty
      = Join (RawLines result) ''\<newline>'' @ ''\<newline>''"
    by (simp add: LuaParser_Reconstruct_def Let_def a)
next
  have a: "fold (INIParser_step Map.empty) ets lines = lines" for ets lines
    by (rule fold_unchanged) (rule INIParser_step_empty)
  show "INIParser_Reconstruct result Map.empty
      = Join (RawLines result) ''\<newline>'' @ ''\<newline>''"
    by (simp add: INIParser_Reconstruct_def Let_def a)
qed

subsection \<open>Detection of tab-separated files\<close>

lemma detectTSV_sample_no_tabs:
  "list_all (\<lambda>l. Count l tab = 0) ls \<Longrightarrow> fst (detectTSV_sample ls tabCounts n) = tabCounts"
  by (induction ls arbitrary: n) (simp_all add: Let_def)

lemma detectTSV_no_tabs:
  assumes "list_all (\<lambda>l. Count l tab = 0) lines"
  shows "\<not> detectTSV lines"
proof -
  have "list_all (\<lambda>l. Count l tab = 0) (take (min (length lines) 20) lines)"
    using assms by (auto simp: list_all_iff dest: in_set_takeD)
  then have "fst (detectTSV_sample (take (min (length lines) 20) lines) [] 0) = []"
    by (rule detectTSV_sample_no_tabs)
  then show ?thesis
    by (auto simp: detectTSV_def Let_def split: prod.splits)
qed

lemma detectTSV_two_lines:
  assumes "Count l1 tab = Count l2 tab" "0 < Count l1 tab"
    and "TrimSpace l1 \<noteq> [] \<or> TrimSpace l2 \<noteq> []"
  shows "detectTSV [l1, l2]"
  using assms by (auto simp: detectTSV_def Let_def tabCounts_incr_def)

text \<open>
  C5, as the code has it. A line that consists of white space only is skipped by the
  detector before it counts tabs (\<open>strings.TrimSpace(line) == ""\<close>), even when the line
  is not the empty string: the two lines \<open>"\t"\<close> and \<open>"\t"\<close> are non-empty, have one tab
  each, and are not detected.
\<close>

theorem detectTSV_blank_lines_counterexample:
  "[tab] \<noteq> [] \<and> Count [tab] tab = Count [tab] tab \<and> 0 < Count [tab] tab
   \<and> \<not> detectTSV [[tab], [tab]]"
  by code_simp

text \<open>
  C5, amended. For every input of two lines that contain the same positive number of tab
  characters, and of which at least one contains a character that is not white space,
  \<open>detectTSV\<close> returns true; and for every input in which no line contains a tab
  character, \<open>detectTSV\<close> returns false.
\<close>

theorem detectTSV_spec:
  "(Count l1 tab = Count l2 tab \<and> 0 < Count l1 tab
      \<and> (TrimSpace l1 \<noteq> [] \<or> TrimSpace l2 \<noteq> []) \<longrightarrow> detectTSV [l1, l2])
   \<and> (list_all (\<lambda>l. Count l tab = 0) lines \<longrightarrow> \<not> detectTSV lines)"
  using detectTSV_two_lines detectTSV_no_tabs by blast

theorem detectTSV_spec_witness:
  "Count (''1001'' @ [tab] @ ''reward'') tab = Count (''1002'' @ [tab] @ ''gold'') tab
   \<and> 0 < Count (''1001'' @ [tab] @ ''reward'') tab
   \<and> TrimSpace (''1001'' @ [tab] @ ''reward'') \<noteq> []
   \<and> detectTSV [''1001'' @ [tab] @ ''reward'', ''1002'' @ [tab] @ ''gold'']
   \<and> list_all (\<lambda>l. Count l tab = 0) [''one'', ''two'', ''three'']
   \<and> \<not> detectTSV [''one'', ''two'', ''three'']"
proof -
  have h1: "Count (''1001'' @ [tab] @ ''reward'') tab = Count (''1002'' @ [tab] @ ''gold'') tab
      \<and> 0 < Count (''1001'' @ [tab] @ ''reward'') tab
      \<and> TrimSpace (''1001'' @ [tab] @ ''reward'') \<noteq> []"
    by code_simp
  have h2: "list_all (\<lambda>l. Count l tab = 0) [''one'', ''two'', ''three'']"
    by code_simp
  from h1 h2
    detectTSV_spec[of "''1001'' @ [tab] @ ''reward''" "''1002'' @ [tab] @ ''gold''"
      "[''one'', ''two'', ''three'']"]
  show ?thesis by blast
qed

subsection \<open>The \<open>id\<close> of a tab-separated row\<close>

lemma parseTSV_col_entry:
  assumes "et \<in> set (parseTSV_col filePath lineNum cols colIdx col)"
  shows "Text et = col \<and> Line et = int lineNum + 1 \<and> Column et = int colIdx
         \<and> isTranslatableColumn col
         \<and> Context et ''id'' = (if length cols > 0 \<and> colIdx > 0 then Some (cols ! 0) else None)"
  using assms by (auto simp: parseTSV_col_def Let_def split: if_splits)

lemma parseTSV_line_entry:
  assumes "et \<in> set (parseTSV_line filePath lineNum line)"
  shows "\<exists>colIdx < length (Split line [tab]).
            Text et = Split line [tab] ! colIdx \<and> Line et = int lineNum + 1
          \<and> Column et = int colIdx \<and> isTranslatableColumn (Text et)
          \<and> Context et ''id'' = (if colIdx > 0 then Some (Split line [tab] ! 0) else None)"
proof -
  define cols where "cols = Split line [tab]"
  from assms obtain colIdx col where
    mem: "(colIdx, col) \<in> set (enumerate 0 cols)"
    and et: "et \<in> set (parseTSV_col filePath lineNum cols colIdx col)"
    by (auto simp: parseTSV_line_def Let_def cols_def split: if_splits)
  from mem have idx: "colIdx < length cols" "col = cols ! colIdx"
    by (auto simp: in_set_enumerate_eq)
  from parseTSV_col_entry[OF et] idx show ?thesis
    unfolding cols_def by (intro exI[of _ colIdx]) auto
qed

lemma parseTSV_entry:
  assumes "et \<in> set (Texts (parseTSV result filePath))" "Texts result = []"
  shows "\<exists>lineNum colIdx.
            lineNum < length (RawLines result)
          \<and> colIdx < length (Split (RawLines result ! lineNum) [tab])
          \<and> Line et = int lineNum + 1 \<and> Column et = int colIdx
          \<and> Text et = Split (RawLines result ! lineNum) [tab] ! colIdx
          \<and> isTranslatableColumn (Text et)
          \<and> Context et ''id''
              = (if colIdx > 0 then Some (Split (RawLines result ! lineNum) [tab] ! 0) else None)"
proof -
  from assms obtain lineNum line where
    mem: "(lineNum, line) \<in> set (enumerate 0 (RawLines result))"
    and et: "et \<in> set (parseTSV_line filePath lineNum line)"
    by (auto simp: parseTSV_def)
  from mem have idx: "lineNum < length (RawLines result)" "line = RawLines result ! lineNum"
    by (auto simp: in_set_enumerate_eq)
  from parseTSV_line_entry[OF et] idx show ?thesis
    by blast
qed

text \<open>
  C7, as the code has it. The parser sets \<open>id\<close> only under the guard \<open>colIdx > 0\<close>. In the
  file with the two rows \<open>"\<dots>\tx"\<close> and \<open>"\<dots>\ty"\<close>, whose first columns are the two
  Han characters U+83B7 U+5F97, the parse is in TSV mode and extracts column 0 of each
  row; the context of the first extracted text has no \<open>id\<close> at all, so it is not the
  row's column 0.
\<close>

theorem parseTSV_column0_counterexample:
  "FileType (projr (TXTParser_Parse
       (Inr [[CHR 0xE8, CHR 0x8E, CHR 0xB7, CHR 0xE5, CHR 0xBE, CHR 0x97, tab, CHR ''x''],
             [CHR 0xE8, CHR 0x8E, CHR 0xB7, CHR 0xE5, CHR 0xBE, CHR 0x97, tab, CHR ''y'']])
       ''f.txt'')) = ''tsv''
   \<and> length (Texts (projr (TXTParser_Parse
       (Inr [[CHR 0xE8, CHR 0x8E, CHR 0xB7, CHR 0xE5, CHR 0xBE, CHR 0x97, tab, CHR ''x''],
             [CHR 0xE8, CHR 0x8E, CHR 0xB7, CHR 0xE5, CHR 0xBE, CHR 0x97, tab, CHR ''y'']])
       ''f.txt''))) = 2
   \<and> Column (Texts (projr (TXTParser_Parse
       (Inr [[CHR 0xE8, CHR 0x8E, CHR 0xB7, CHR 0xE5, CHR 0xBE, CHR 0x97, tab, CHR ''x''],
             [CHR 0xE8, CHR 0x8E, CHR 0xB7, CHR 0xE5, CHR 0xBE, CHR 0x97, tab, CHR ''y'']])
       ''f.txt'')) ! 0) = 0
   \<and> Line (Texts (projr (TXTParser_Parse
       (Inr [[CHR 0xE8, CHR 0x8E, CHR 0xB7, CHR 0xE5, CHR 0xBE, CHR 0x97, tab, CHR ''x''],
             [CHR 0xE8, CHR 0x8E, CHR 0xB7, CHR 0xE5, CHR 0xBE, CHR 0x97, tab, CHR ''y'']])
       ''f.txt'')) ! 0) = 1
   \<and> Context (Texts (projr (TXTParser_Parse
       (Inr [[CHR 0xE8, CHR 0x8E, CHR 0xB7, CHR 0xE5, CHR 0xBE, CHR 0x97, tab, CHR ''x''],
             [CHR 0xE8, CHR 0x8E, CHR 0xB7, CHR 0xE5, CHR 0xBE, CHR 0x97, tab, CHR ''y'']])
       ''f.txt'')) ! 0) ''id'' = None
   \<and> Context (Texts (projr (TXTParser_Parse
       (Inr [[CHR 0xE8, CHR 0x8E, CHR 0xB7, CHR 0xE5, CHR 0xBE, CHR 0x97, tab, CHR ''x''],
             [CHR 0xE8, CHR 0x8E, CHR 0xB7, CHR 0xE5, CHR 0xBE, CHR 0x97, tab, CHR ''y'']])
       ''f.txt'')) ! 0) ''id''
       \<noteq> Some (Split [CHR 0xE8, CHR 0x8E, CHR 0xB7, CHR 0xE5, CHR 0xBE, CHR 0x97, tab, CHR ''x'']
                 [tab] ! 0)"
  by code_simp

text \<open>
  C7, amended. For every parse in TSV mode, every extracted text is a translatable column
  of a row of the file, and its context maps \<open>id\<close> to column 0 of that row when the
  extracted column is not column 0 itself; when it is column 0, its context has no
  \<open>id\<close>.
\<close>

theorem parseTSV_id_context:
  assumes "TXTParser_Parse (Inr rawLines) filePath = Inr result"
    and "FileType result = ''tsv''"
    and "et \<in> set (Texts result)"
  shows "\<exists>lineNum colIdx.
            lineNum < length rawLines
          \<and> colIdx < length (Split (rawLines ! lineNum) [tab])
          \<and> Line et = int lineNum + 1 \<and> Column et = int colIdx
          \<and> Text et = Split (rawLines ! lineNum) [tab] ! colIdx
          \<and> isTranslatableColumn (Text et)
          \<and> Context et ''id''
              = (if colIdx > 0 then Some (Split (rawLines ! lineNum) [tab] ! 0) else None)"
proof -
  define r0 where
    "r0 = \<lparr>FilePath = filePath, FileType = ''tsv'', Texts = [], RawLines = rawLines\<rparr>"
  have "result = parseTSV r0 filePath"
  proof (cases "detectTSV rawLines")
    case True
    with assms(1) show ?thesis
      by (simp add: TXTParser_Parse_def Let_def r0_def)
  next
    case False
    with assms(1) have "FileType result = ''txt''"
      by (auto simp: TXTParser_Parse_def Let_def parsePlainText_def)
    with assms(2) show ?thesis by simp
  qed
  with assms(3) have mem: "et \<in> set (Texts (parseTSV r0 filePath))" by simp
  have texts: "Texts r0 = []" by (simp add: r0_def)
  have raw: "RawLines r0 = rawLines" by (simp add: r0_def)
  from parseTSV_entry[OF mem texts] show ?thesis
    unfolding raw .
qed

theorem parseTSV_id_context_witness:
  "TXTParser_Parse (Inr [[CHR ''1'', tab, CHR 0xE8, CHR 0x8E, CHR 0xB7, CHR 0xE5, CHR 0xBE, CHR 0x97],
             [CHR ''2'', tab, CHR 0xE8, CHR 0x8E, CHR 0xB7, CHR 0xE5, CHR 0xBE, CHR 0x97]]) ''f.txt'' = Inr (parseTSV \<lparr>FilePath = ''f.txt'', FileType = ''tsv'', Texts = [], RawLines =
          [[CHR ''1'', tab, CHR 0xE8, CHR 0x8E, CHR 0xB7, CHR 0xE5, CHR 0xBE, CHR 0x97],
             [CHR ''2'', tab, CHR 0xE8, CHR 0x8E, CHR 0xB7, CHR 0xE5, CHR 0xBE, CHR 0x97]]\<rparr> ''f.txt'')
   \<and> FileType (parseTSV \<lparr>FilePath = ''f.txt'', FileType = ''tsv'', Texts = [], RawLines =
          [[CHR ''1'', tab, CHR 0xE8, CHR 0x8E, CHR 0xB7, CHR 0xE5, CHR 0xBE, CHR 0x97],
             [CHR ''2'', tab, CHR 0xE8, CHR 0x8E, CHR 0xB7, CHR 0xE5, CHR 0xBE, CHR 0x97]]\<rparr> ''f.txt'') = ''tsv''
   \<and> (Texts (parseTSV \<lparr>FilePath = ''f.txt'', FileType = ''tsv'', Texts = [], RawLines =
          [[CHR ''1'', tab, CHR 0xE8, CHR 0x8E, CHR 0xB7, CHR 0xE5, CHR 0xBE, CHR 0x97],
             [CHR ''2'', tab, CHR 0xE8, CHR 0x8E, CHR 0xB7, CHR 0xE5, CHR 0xBE, CHR 0x97]]\<rparr> ''f.txt'') ! 1) \<in> set (Texts (parseTSV \<lparr>FilePath = ''f.txt'', FileType = ''tsv'', Texts = [], RawLines =
          [[CHR ''1'', tab, CHR 0xE8, CHR 0x8E, CHR 0xB7, CHR 0xE5, CHR 0xBE, CHR 0x97],
             [CHR ''2'', tab, CHR 0xE8, CHR 0x8E, CHR 0xB7, CHR 0xE5, CHR 0xBE, CHR 0x97]]\<rparr> ''f.txt''))
   \<and> Column (Texts (parseTSV \<lparr>FilePath = ''f.txt'', FileType = ''tsv'', Texts = [], RawLines =
          [[CHR ''1'', tab, CHR 0xE8, CHR 0x8E, CHR 0xB7, CHR 0xE5, CHR 0xBE, CHR 0x97],
             [CHR ''2'', tab, CHR 0xE8, CHR 0x8E, CHR 0xB7, CHR 0xE5, CHR 0xBE, CHR 0x97]]\<rparr> ''f.txt'') ! 1) = 1
   \<and> Context (Texts (parseTSV \<lparr>FilePath = ''f.txt'', FileType = ''tsv'', Texts = [], RawLines =
          [[CHR ''1'', tab, CHR 0xE8, CHR 0x8E, CHR 0xB7, CHR 0xE5, CHR 0xBE, CHR 0x97],
             [CHR ''2'', tab, CHR 0xE8, CHR 0x8E, CHR 0xB7, CHR 0xE5, CHR 0xBE, CHR 0x97]]\<rparr> ''f.txt'') ! 1) ''id'' = Some ''2''
   \<and> (\<exists>lineNum colIdx.
          lineNum < length [[CHR ''1'', tab, CHR 0xE8, CHR 0x8E, CHR 0xB7, CHR 0xE5, CHR 0xBE, CHR 0x97],
             [CHR ''2'', tab, CHR 0xE8, CHR 0x8E, CHR 0xB7, CHR 0xE5, CHR 0xBE, CHR 0x97]]
        \<and> colIdx < length (Split ([[CHR ''1'', tab, CHR 0xE8, CHR 0x8E, CHR 0xB7, CHR 0xE5, CHR 0xBE, CHR 0x97],
             [CHR ''2'', tab, CHR 0xE8, CHR 0x8E, CHR 0xB7, CHR 0xE5, CHR 0xBE, CHR 0x97]] ! lineNum) [tab])
        \<and> Line (Texts (parseTSV \<lparr>FilePath = ''f.txt'', FileType = ''tsv'', Texts = [], RawLines =
          [[CHR ''1'', tab, CHR 0xE8, CHR 0x8E, CHR 0xB7, CHR 0xE5, CHR 0xBE, CHR 0x97],
             [CHR ''2'', tab, CHR 0xE8, CHR 0x8E, CHR 0xB7, CHR 0xE5, CHR 0xBE, CHR 0x97]]\<rparr> ''f.txt'') ! 1) = int lineNum + 1
        \<and> Column (Texts (parseTSV \<lparr>FilePath = ''f.txt'', FileType = ''tsv'', Texts = [], RawLines =
          [[CHR ''1'', tab, CHR 0xE8, CHR 0x8E, CHR 0xB7, CHR 0xE5, CHR 0xBE, CHR 0x97],
             [CHR ''2'', tab, CHR 0xE8, CHR 0x8E, CHR 0xB7, CHR 0xE5, CHR 0xBE, CHR 0x97]]\<rparr> ''f.txt'') ! 1) = int colIdx
        \<and> Text (Texts (parseTSV \<lparr>FilePath = ''f.txt'', FileType = ''tsv'', Texts = [], RawLines =
          [[CHR ''1'', tab, CHR 0xE8, CHR 0x8E, CHR 0xB7, CHR 0xE5, CHR 0xBE, CHR 0x97],
             [CHR ''2'', tab, CHR 0xE8, CHR 0x8E, CHR 0xB7, CHR 0xE5, CHR 0xBE, CHR 0x97]]\<rparr> ''f.txt'') ! 1) = Split ([[CHR ''1'', tab, CHR 0xE8, CHR 0x8E, CHR 0xB7, CHR 0xE5, CHR 0xBE, CHR 0x97],
             [CHR ''2'', tab, CHR 0xE8, CHR 0x8E, CHR 0xB7, CHR 0xE5, CHR 0xBE, CHR 0x97]] ! lineNum) [tab] ! colIdx
        \<and> isTranslatableColumn (Text (Texts (parseTSV \<lparr>FilePath = ''f.txt'', FileType = ''tsv'', Texts = [], RawLines =
          [[CHR ''1'', tab, CHR 0xE8, CHR 0x8E, CHR 0xB7, CHR 0xE5, CHR 0xBE, CHR 0x97],
             [CHR ''2'', tab, CHR 0xE8, CHR 0x8E, CHR 0xB7, CHR 0xE5, CHR 0xBE, CHR 0x97]]\<rparr> ''f.txt'') ! 1))
        \<and> Context (Texts (parseTSV \<lparr>FilePath = ''f.txt'', FileType = ''tsv'', Texts = [], RawLines =
          [[CHR ''1'', tab, CHR 0xE8, CHR 0x8E, CHR 0xB7, CHR 0xE5, CHR 0xBE, CHR 0x97],
             [CHR ''2'', tab, CHR 0xE8, CHR 0x8E, CHR 0xB7, CHR 0xE5, CHR 0xBE, CHR 0x97]]\<rparr> ''f.txt'') ! 1) ''id''
            = (if colIdx > 0 then Some (Split ([[CHR ''1'', tab, CHR 0xE8, CHR 0x8E, CHR 0xB7, CHR 0xE5, CHR 0xBE, CHR 0x97],
             [CHR ''2'', tab, CHR 0xE8, CHR 0x8E, CHR 0xB7, CHR 0xE5, CHR 0xBE, CHR 0x97]] ! lineNum) [tab] ! 0) else None))"
  (is "?parse \<and> ?type \<and> ?mem \<and> ?col \<and> ?id \<and> ?concl")
proof -
  have tsv: "detectTSV [[CHR ''1'', tab, CHR 0xE8, CHR 0x8E, CHR 0xB7, CHR 0xE5, CHR 0xBE, CHR 0x97],
             [CHR ''2'', tab, CHR 0xE8, CHR 0x8E, CHR 0xB7, CHR 0xE5, CHR 0xBE, CHR 0x97]]"
    by code_simp
  have h1: ?parse
    using tsv by (simp add: TXTParser_Parse_def Let_def)
  have h2: ?type
    by (simp add: parseTSV_def)
  have "length (Texts (parseTSV \<lparr>FilePath = ''f.txt'', FileType = ''tsv'', Texts = [], RawLines =
          [[CHR ''1'', tab, CHR 0xE8, CHR 0x8E, CHR 0xB7, CHR 0xE5, CHR 0xBE, CHR 0x97],
             [CHR ''2'', tab, CHR 0xE8, CHR 0x8E, CHR 0xB7, CHR 0xE5, CHR 0xBE, CHR 0x97]]\<rparr> ''f.txt'')) = 2"
    by code_simp
  then have h3: ?mem
    by simp
  have h4: ?col
    by code_simp
  have h5: ?id
    by code_simp
  have h6: ?concl
    by (rule parseTSV_id_context[OF h1 h2 h3])
  from h1 h2 h3 h4 h5 h6 show ?thesis
    by (intro conjI)
qed


section \<open>Properties of the seed ingestor\<close>

lemma matchPairs_pair_entry:
  assumes "e \<in> set (matchPairs_pair Sum256 mapLower order removed_i added_i ext file)"
  shows "SourceText e \<noteq> [] \<and> ContainsChinese (SourceText e) \<and> TranslatedText e \<noteq> []
         \<and> SeedHash e = Hash Sum256 (SourceText e)
         \<and> (SourceText e, TranslatedText e, Function e) = extractTextPair removed_i added_i ext"
  using assms
  by (cases "extractTextPair removed_i added_i ext")
    (auto simp: matchPairs_pair_def split: if_splits)

lemma matchPairs_pair_length:
  "length (matchPairs_pair Sum256 mapLower order removed_i added_i ext file) \<le> 1"
  by (cases "extractTextPair removed_i added_i ext") (simp add: matchPairs_pair_def)

lemma length_concat_le:
  "(\<And>x. x \<in> set xs \<Longrightarrow> length (f x) \<le> 1) \<Longrightarrow> length (concat (map f xs)) \<le> length xs"
proof (induction xs)
  case Nil
  then show ?case by simp
next
  case (Cons x xs)
  have "length (f x) \<le> 1" by (rule Cons.prems) simp
  moreover have "length (concat (map f xs)) \<le> length xs"
  proof (rule Cons.IH)
    fix y assume "y \<in> set xs"
    then show "length (f y) \<le> 1" using Cons.prems[of y] by simp
  qed
  ultimately show ?case by simp
qed

text \<open>
  C6. Every seed entry that \<open>matchPairs\<close> emits has a source text that is not empty and
  contains a Han character, a target text that is not empty, and as hash the
  hexadecimal SHA-256 digest of its source text. It comes from the \<open>i\<close>-th removed line
  and the \<open>i\<close>-th added line of the hunk, for a position \<open>i\<close> below the smaller of the
  two line counts; and a hunk gives at most that many entries.
\<close>

theorem matchPairs_entries:
  assumes "e \<in> set (matchPairs Sum256 mapLower orders hunk ext file)"
  shows "SourceText e \<noteq> [] \<and> ContainsChinese (SourceText e) \<and> TranslatedText e \<noteq> []
         \<and> SeedHash e = Hash Sum256 (SourceText e)
         \<and> (\<exists>i < min (length (removed hunk)) (length (added hunk)).
               (SourceText e, TranslatedText e, Function e)
                 = extractTextPair (removed hunk ! i) (added hunk ! i) ext)
         \<and> length (matchPairs Sum256 mapLower orders hunk ext file)
             \<le> min (length (removed hunk)) (length (added hunk))"
proof -
  define pairCount where
    "pairCount = (if length (added hunk) < length (removed hunk)
                  then length (added hunk) else length (removed hunk))"
  have pc: "pairCount = min (length (removed hunk)) (length (added hunk))"
    by (simp add: pairCount_def min_def)
  have unfold: "matchPairs Sum256 mapLower orders hunk ext file =
      concat (map (\<lambda>i. matchPairs_pair Sum256 mapLower (orders i)
                          (removed hunk ! i) (added hunk ! i) ext file) [0 ..< pairCount])"
    by (simp add: matchPairs_def pairCount_def)
  from assms obtain i where i: "i < pairCount"
    and mem: "e \<in> set (matchPairs_pair Sum256 mapLower (orders i)
                         (removed hunk ! i) (added hunk ! i) ext file)"
    unfolding unfold by auto
  have "length (matchPairs Sum256 mapLower orders hunk ext file) \<le> length [0 ..< pairCount]"
    unfolding unfold by (rule length_concat_le) (rule matchPairs_pair_length)
  then have len: "length (matchPairs Sum256 mapLower orders hunk ext file)
      \<le> min (length (removed hunk)) (length (added hunk))"
    by (simp add: pc)
  from matchPairs_pair_entry[OF mem] i len show ?thesis
    unfolding pc by blast
qed

theorem matchPairs_entries_witness:
  "((matchPairs (\<lambda>s. s) (\<lambda>s. s) (\<lambda>i. (entityPatterns, termEntityMap))
          \<lparr>removed = [''name = '' @ [CHR 0xE6, CHR 0x8A, CHR 0x80, CHR 0xE8, CHR 0x83, CHR 0xBD], ''x''],
            added = [''name=Ky nang'']\<rparr> ''.ini'' ''data/a.ini'') ! 0) \<in> set (matchPairs (\<lambda>s. s) (\<lambda>s. s) (\<lambda>i. (entityPatterns, termEntityMap))
          \<lparr>removed = [''name = '' @ [CHR 0xE6, CHR 0x8A, CHR 0x80, CHR 0xE8, CHR 0x83, CHR 0xBD], ''x''],
            added = [''name=Ky nang'']\<rparr> ''.ini'' ''data/a.ini'')
   \<and> (matchPairs (\<lambda>s. s) (\<lambda>s. s) (\<lambda>i. (entityPatterns, termEntityMap))
          \<lparr>removed = [''name = '' @ [CHR 0xE6, CHR 0x8A, CHR 0x80, CHR 0xE8, CHR 0x83, CHR 0xBD], ''x''],
            added = [''name=Ky nang'']\<rparr> ''.ini'' ''data/a.ini'')
       = [\<lparr>SourceText = [CHR 0xE6, CHR 0x8A, CHR 0x80, CHR 0xE8, CHR 0x83, CHR 0xBD],
           TranslatedText = ''Ky nang'', SeedFile = ''data/a.ini'', Function = [],
           EntityType = ''skill'', SeedHash = ''e68a80e883bd''\<rparr>]
   \<and> (SourceText ((matchPairs (\<lambda>s. s) (\<lambda>s. s) (\<lambda>i. (entityPatterns, termEntityMap))
          \<lparr>removed = [''name = '' @ [CHR 0xE6, CHR 0x8A, CHR 0x80, CHR 0xE8, CHR 0x83, CHR 0xBD], ''x''],
            added = [''name=Ky nang'']\<rparr> ''.ini'' ''data/a.ini'') ! 0) \<noteq> [] \<and> ContainsChinese (SourceText ((matchPairs (\<lambda>s. s) (\<lambda>s. s) (\<lambda>i. (entityPatterns, termEntityMap))
          \<lparr>removed = [''name = '' @ [CHR 0xE6, CHR 0x8A, CHR 0x80, CHR 0xE8, CHR 0x83, CHR 0xBD], ''x''],
            added = [''name=Ky nang'']\<rparr> ''.ini'' ''data/a.ini'') ! 0))
        \<and> TranslatedText ((matchPairs (\<lambda>s. s) (\<lambda>s. s) (\<lambda>i. (entityPatterns, termEntityMap))
          \<lparr>removed = [''name = '' @ [CHR 0xE6, CHR 0x8A, CHR 0x80, CHR 0xE8, CHR 0x83, CHR 0xBD], ''x''],
            added = [''name=Ky nang'']\<rparr> ''.ini'' ''data/a.ini'') ! 0) \<noteq> []
        \<and> SeedHash ((matchPairs (\<lambda>s. s) (\<lambda>s. s) (\<lambda>i. (entityPatterns, termEntityMap))
          \<lparr>removed = [''name = '' @ [CHR 0xE6, CHR 0x8A, CHR 0x80, CHR 0xE8, CHR 0x83, CHR 0xBD], ''x''],
            added = [''name=Ky nang'']\<rparr> ''.ini'' ''data/a.ini'') ! 0) = Hash (\<lambda>s. s) (SourceText ((matchPairs (\<lambda>s. s) (\<lambda>s. s) (\<lambda>i. (entityPatterns, termEntityMap))
          \<lparr>removed = [''name = '' @ [CHR 0xE6, CHR 0x8A, CHR 0x80, CHR 0xE8, CHR 0x83, CHR 0xBD], ''x''],
            added = [''name=Ky nang'']\<rparr> ''.ini'' ''data/a.ini'') ! 0))
        \<and> (\<exists>i < min (length (removed \<lparr>removed = [''name = '' @ [CHR 0xE6, CHR 0x8A, CHR 0x80, CHR 0xE8, CHR 0x83, CHR 0xBD], ''x''],
            added = [''name=Ky nang'']\<rparr>)) (length (added \<lparr>removed = [''name = '' @ [CHR 0xE6, CHR 0x8A, CHR 0x80, CHR 0xE8, CHR 0x83, CHR 0xBD], ''x''],
            added = [''name=Ky nang'']\<rparr>)).
               (SourceText ((matchPairs (\<lambda>s. s) (\<lambda>s. s) (\<lambda>i. (entityPatterns, termEntityMap))
          \<lparr>removed = [''name = '' @ [CHR 0xE6, CHR 0x8A, CHR 0x80, CHR 0xE8, CHR 0x83, CHR 0xBD], ''x''],
            added = [''name=Ky nang'']\<rparr> ''.ini'' ''data/a.ini'') ! 0), TranslatedText ((matchPairs (\<lambda>s. s) (\<lambda>s. s) (\<lambda>i. (entityPatterns, termEntityMap))
          \<lparr>removed = [''name = '' @ [CHR 0xE6, CHR 0x8A, CHR 0x80, CHR 0xE8, CHR 0x83, CHR 0xBD], ''x''],
            added = [''name=Ky nang'']\<rparr> ''.ini'' ''data/a.ini'') ! 0), Function ((matchPairs (\<lambda>s. s) (\<lambda>s. s) (\<lambda>i. (entityPatterns, termEntityMap))
          \<lparr>removed = [''name = '' @ [CHR 0xE6, CHR 0x8A, CHR 0x80, CHR 0xE8, CHR 0x83, CHR 0xBD], ''x''],
            added = [''name=Ky nang'']\<rparr> ''.ini'' ''data/a.ini'') ! 0))
                 = extractTextPair (removed \<lparr>removed = [''name = '' @ [CHR 0xE6, CHR 0x8A, CHR 0x80, CHR 0xE8, CHR 0x83, CHR 0xBD], ''x''],
            added = [''name=Ky nang'']\<rparr> ! i) (added \<lparr>removed = [''name = '' @ [CHR 0xE6, CHR 0x8A, CHR 0x80, CHR 0xE8, CHR 0x83, CHR 0xBD], ''x''],
            added = [''name=Ky nang'']\<rparr> ! i) ''.ini'')
        \<and> length (matchPairs (\<lambda>s. s) (\<lambda>s. s) (\<lambda>i. (entityPatterns, termEntityMap))
          \<lparr>removed = [''name = '' @ [CHR 0xE6, CHR 0x8A, CHR 0x80, CHR 0xE8, CHR 0x83, CHR 0xBD], ''x''],
            added = [''name=Ky nang'']\<rparr> ''.ini'' ''data/a.ini'') \<le> min (length (removed \<lparr>removed = [''name = '' @ [CHR 0xE6, CHR 0x8A, CHR 0x80, CHR 0xE8, CHR 0x83, CHR 0xBD], ''x''],
            added = [''name=Ky nang'']\<rparr>)) (length (added \<lparr>removed = [''name = '' @ [CHR 0xE6, CHR 0x8A, CHR 0x80, CHR 0xE8, CHR 0x83, CHR 0xBD], ''x''],
            added = [''name=Ky nang'']\<rparr>)))"
  (is "?mem \<and> ?val \<and> ?concl")
proof -
  have val: ?val
    by code_simp
  then have mem: ?mem
    by simp
  have concl: ?concl
    by (rule matchPairs_entries[OF mem])
  show ?thesis
    by (rule conjI[OF mem conjI[OF val concl]])
qed


text \<open>
  C4, on the code. The claim is that entity-type inference gives the same type on every
  invocation and that, among several matching keys of the pattern table, the
  alphabetically first decides. \<open>detectEntityType\<close> returns at the first matching entry
  that the \<open>range\<close> loop over the map \<open>entityPatterns\<close> happens to visit, and nothing
  sorts the keys. For the file name \<open>equip.lua\<close> the keys \<open>equip\<close> and \<open>ui\<close> both
  match: a call that visits the entries in the order of the source text returns
  \<open>item\<close>, a call that visits them in the opposite order returns \<open>ui\<close>.
\<close>

theorem detectEntityType_depends_on_map_order:
  "set (rev entityPatterns) = set entityPatterns
   \<and> Contains ''equip.lua'' ''equip'' \<and> Contains ''equip.lua'' ''ui''
   \<and> detectEntityType mapLower entityPatterns termEntityMap ''equip.lua'' [] [] = ''item''
   \<and> detectEntityType mapLower (rev entityPatterns) termEntityMap ''equip.lua'' [] [] = ''ui''"
proof -
  have "Contains ''equip.lua'' ''equip'' \<and> Contains ''equip.lua'' ''ui''
   \<and> detectEntityType mapLower entityPatterns termEntityMap ''equip.lua'' [] [] = ''item''
   \<and> detectEntityType mapLower (rev entityPatterns) termEntityMap ''equip.lua'' [] [] = ''ui''"
    by code_simp
  then show ?thesis by simp
qed

section \<open>Properties of the translator client\<close>

text \<open>
  C3, on the code. The claim is that \<open>Translate\<close> retries only after a timeout, a
  status 429 or a status 5xx, and that any other response that is not 2xx ends the call
  at once. \<open>doRequest\<close> tells the two kinds of status apart (``retryable error'' against
  ``API error''), but \<open>Translate\<close> goes round its loop again after every error of
  \<open>doRequest\<close> unless the context has an error. When the API answers 400 each time and
  the context stays live, \<open>Translate\<close> sends three requests, waits 2 s and 4 s between
  them, and only then fails.
\<close>

theorem Translate_retries_status_400:
  "Translate Unmarshal
     \<lparr>exchange = (\<lambda>attempt. Response 400 ''bad request''),
      done_during_backoff = (\<lambda>attempt. False),
      err_after_attempt = (\<lambda>attempt. False)\<rparr>
   = (Inl (TranslationFailed 3 (Some (APIStatusError 400 ''bad request''))),
      [Request, Backoff 2, Request, Backoff 4, Request])"
  by (simp add: Translate_def Translate_loop.simps doRequest_def)

end
